theory Spec2Isabelle
  imports Complex_Main "HOL-Library.Word"
begin

unbundle bit_operations_syntax

section \<open>Conventions of the embedding\<close>

text \<open>
  The TypeScript sources \<^verbatim>\<open>lib/embeddings.ts\<close> and \<^verbatim>\<open>lib/redis.ts\<close> (which also
  carries the vector store) are embedded function by function.

  \<^item> A JavaScript \<^verbatim>\<open>number\<close> is a \<open>num\<close>: a finite value, carried as a \<^typ>\<open>real\<close>, or
    one of \<open>Infinity\<close>, \<open>-Infinity\<close> and \<open>NaN\<close>. The special values follow the rules of
    IEEE arithmetic. Arithmetic on finite values is exact: the rounding of doubles, and
    the overflow of a finite result, are outside the model, and so is the sign of zero.
    A number that the code keeps finite is a \<^typ>\<open>real\<close>.
  \<^item> A JavaScript string is a \<^typ>\<open>string\<close>; its characters are the code units of the
    text, which are taken to be 8-bit.
  \<^item> Module-level \<^verbatim>\<open>let\<close> variables, the console, the environment and the backing
    store are explicit state that every function takes and returns.
  \<^item> A thrown exception is a value: the outcome of each backing-store command and of the
    provider call is an argument of the function that issues it.
\<close>

section \<open>Strings\<close>

text \<open>
  The 8-bit code units that \<^verbatim>\<open>String.prototype.toLowerCase\<close> changes: the letters A to Z
  and U+00C0 to U+00DE without the multiplication sign U+00D7. Each moves up by 32.
\<close>

definition isUpper :: "char \<Rightarrow> bool" where
  "isUpper c =
     (let n = (of_char c :: nat)
      in (65 \<le> n \<and> n \<le> 90) \<or> (192 \<le> n \<and> n \<le> 222 \<and> n \<noteq> 215))"

definition lowerChar :: "char \<Rightarrow> char" where
  "lowerChar c = (if isUpper c then char_of ((of_char c :: nat) + 32) else c)"

definition toLowerCase :: "string \<Rightarrow> string" where
  "toLowerCase s = map lowerChar s"

text \<open>The class \<^verbatim>\<open>\s\<close> of a JavaScript regular expression, on 8-bit code units.\<close>

definition isSpace :: "char \<Rightarrow> bool" where
  "isSpace c = ((of_char c :: nat) \<in> {9, 10, 11, 12, 13, 32, 160})"

text \<open>
  \<^verbatim>\<open>s.split(/\s+/)\<close>: the pieces between maximal runs of white space. A run at either
  end leaves an empty piece there, and the empty string gives one empty piece.
\<close>

function splitWs :: "string \<Rightarrow> string list" where
  "splitWs [] = [[]]"
| "splitWs (c # cs) =
     (if isSpace c then [] # splitWs (dropWhile isSpace cs)
      else (case splitWs cs of [] \<Rightarrow> [[c]] | w # ws \<Rightarrow> (c # w) # ws))"
  by pat_completeness auto
termination
  by (relation "measure length") (auto simp: length_dropWhile_le less_Suc_eq_le)

fun startsWith :: "string \<Rightarrow> string \<Rightarrow> bool" where
  "startsWith s [] = True"
| "startsWith [] (p # ps) = False"
| "startsWith (c # cs) (p # ps) = (c = p \<and> startsWith cs ps)"

text \<open>\<^verbatim>\<open>hay.includes(needle)\<close>: the needle occurs as a contiguous piece.\<close>

fun includes_str :: "string \<Rightarrow> string \<Rightarrow> bool" where
  "includes_str [] needle = (needle = [])"
| "includes_str (c # cs) needle = (startsWith (c # cs) needle \<or> includes_str cs needle)"

section \<open>Numbers\<close>

datatype num = Fin real | PosInf | NegInf | NaN

fun is_fin :: "num \<Rightarrow> bool" where
  "is_fin (Fin r) = True"
| "is_fin PosInf = False"
| "is_fin NegInf = False"
| "is_fin NaN = False"

fun the_fin :: "num \<Rightarrow> real" where
  "the_fin (Fin r) = r"
| "the_fin PosInf = 0"
| "the_fin NegInf = 0"
| "the_fin NaN = 0"

text \<open>The quotient \<^verbatim>\<open>x / y\<close> of two finite numbers.\<close>

definition js_div :: "real \<Rightarrow> real \<Rightarrow> num" where
  "js_div x y =
     (if y \<noteq> 0 then Fin (x / y)
      else if x = 0 then NaN
      else if 0 < x then PosInf else NegInf)"

text \<open>The sign of a number that is not \<open>NaN\<close>.\<close>

fun num_sign :: "num \<Rightarrow> int" where
  "num_sign (Fin x) = (if x < 0 then - 1 else if x = 0 then 0 else 1)"
| "num_sign PosInf = 1"
| "num_sign NegInf = - 1"
| "num_sign NaN = 0"

fun num_neg :: "num \<Rightarrow> num" where
  "num_neg (Fin x) = Fin (- x)"
| "num_neg PosInf = NegInf"
| "num_neg NegInf = PosInf"
| "num_neg NaN = NaN"

text \<open>\<^verbatim>\<open>a + b\<close>: the sum of opposite infinities is \<open>NaN\<close>.\<close>

definition num_add :: "num \<Rightarrow> num \<Rightarrow> num" where
  "num_add a b =
     (case (a, b) of
        (Fin x, Fin y) \<Rightarrow> Fin (x + y)
      | (NaN, _) \<Rightarrow> NaN
      | (_, NaN) \<Rightarrow> NaN
      | (PosInf, NegInf) \<Rightarrow> NaN
      | (NegInf, PosInf) \<Rightarrow> NaN
      | (PosInf, _) \<Rightarrow> PosInf
      | (_, PosInf) \<Rightarrow> PosInf
      | (NegInf, _) \<Rightarrow> NegInf
      | (_, NegInf) \<Rightarrow> NegInf)"

definition num_sub :: "num \<Rightarrow> num \<Rightarrow> num" where
  "num_sub a b = num_add a (num_neg b)"

text \<open>\<^verbatim>\<open>a * b\<close>: zero times an infinity is \<open>NaN\<close>.\<close>

definition num_mul :: "num \<Rightarrow> num \<Rightarrow> num" where
  "num_mul a b =
     (case (a, b) of
        (Fin x, Fin y) \<Rightarrow> Fin (x * y)
      | (NaN, _) \<Rightarrow> NaN
      | (_, NaN) \<Rightarrow> NaN
      | _ \<Rightarrow>
          if num_sign a * num_sign b = 0 then NaN
          else if 0 < num_sign a * num_sign b then PosInf else NegInf)"

text \<open>
  \<^verbatim>\<open>a / b\<close>: an infinity by an infinity is \<open>NaN\<close>, a finite number by an infinity is 0,
  and an infinity by a finite number keeps or changes its sign with the sign of the
  divisor.
\<close>

definition num_div :: "num \<Rightarrow> num \<Rightarrow> num" where
  "num_div a b =
     (case (a, b) of
        (Fin x, Fin y) \<Rightarrow> js_div x y
      | (NaN, _) \<Rightarrow> NaN
      | (_, NaN) \<Rightarrow> NaN
      | (Fin x, _) \<Rightarrow> Fin 0
      | (_, Fin y) \<Rightarrow> if y < 0 then num_neg a else a
      | _ \<Rightarrow> NaN)"

text \<open>\<^verbatim>\<open>Math.sqrt\<close>.\<close>

fun num_sqrt :: "num \<Rightarrow> num" where
  "num_sqrt (Fin x) = (if x < 0 then NaN else Fin (sqrt x))"
| "num_sqrt PosInf = PosInf"
| "num_sqrt NegInf = NaN"
| "num_sqrt NaN = NaN"

text \<open>\<^verbatim>\<open>a < b\<close>: every comparison with \<open>NaN\<close> is false.\<close>

definition num_less :: "num \<Rightarrow> num \<Rightarrow> bool" where
  "num_less a b =
     (case (a, b) of
        (Fin x, Fin y) \<Rightarrow> x < y
      | (NaN, _) \<Rightarrow> False
      | (_, NaN) \<Rightarrow> False
      | (NegInf, NegInf) \<Rightarrow> False
      | (NegInf, _) \<Rightarrow> True
      | (PosInf, _) \<Rightarrow> False
      | (_, PosInf) \<Rightarrow> True
      | (_, NegInf) \<Rightarrow> False)"

text \<open>\<^verbatim>\<open>a <= b\<close>.\<close>

definition num_le :: "num \<Rightarrow> num \<Rightarrow> bool" where
  "num_le a b = (num_less a b \<or> (a = b \<and> a \<noteq> NaN))"

text \<open>\<^verbatim>\<open>Math.max(a, b)\<close> and \<^verbatim>\<open>Math.min(a, b)\<close>: \<open>NaN\<close> when either argument is.\<close>

definition num_max :: "num \<Rightarrow> num \<Rightarrow> num" where
  "num_max a b = (if a = NaN \<or> b = NaN then NaN else if num_less a b then b else a)"

definition num_min :: "num \<Rightarrow> num \<Rightarrow> num" where
  "num_min a b = (if a = NaN \<or> b = NaN then NaN else if num_less b a then b else a)"

section \<open>Vector store\<close>

record metadata =
  title :: string
  source :: string
  link :: string
  pubDate :: num
  chunkIndex :: nat

text \<open>
  \<open>pubDate\<close> holds the number \<^verbatim>\<open>new Date(chunk.metadata.pubDate).getTime()\<close>: the
  milliseconds since the epoch, or \<open>NaN\<close> when the date string does not parse (the
  ingestion script writes the empty string for a feed item without a date).
\<close>

record EmbeddedChunk =
  chunk_id :: string
  chunk_text :: string
  embedding :: "num list"
  meta :: metadata

record SearchResult = EmbeddedChunk +
  similarity :: num
  relevanceScore :: num

definition dotProduct :: "num list \<Rightarrow> num list \<Rightarrow> num" where
  "dotProduct vecA vecB =
     foldl (\<lambda>sum ab. num_add sum (num_mul (fst ab) (snd ab))) (Fin 0) (zip vecA vecB)"

definition vectorMagnitude :: "num list \<Rightarrow> num" where
  "vectorMagnitude v = num_sqrt (foldl (\<lambda>sum a. num_add sum (num_mul a a)) (Fin 0) v)"

definition cosineSimilarity :: "num list \<Rightarrow> num list \<Rightarrow> num" where
  "cosineSimilarity vecA vecB =
     (if length vecA \<noteq> length vecB then Fin 0
      else
        let magnitudeA = vectorMagnitude vecA;
            magnitudeB = vectorMagnitude vecB
        in if magnitudeA = Fin 0 \<or> magnitudeB = Fin 0 then Fin 0
           else num_div (dotProduct vecA vecB) (num_mul magnitudeA magnitudeB))"

text \<open>\<open>now\<close> is \<^verbatim>\<open>new Date().getTime()\<close> at the time of the call, a finite number.\<close>

definition recencyScore :: "real \<Rightarrow> num \<Rightarrow> num" where
  "recencyScore now pubTime =
     (let daysDiff = num_div (num_sub (Fin now) pubTime) (Fin (1000 * 60 * 60 * 24))
      in num_max (Fin 0) (num_sub (Fin 1) (num_div daysDiff (Fin 30))))"

text \<open>
  \<^verbatim>\<open>titleMatches.length / queryWords.length\<close>: the quotient of two lengths, the second
  of which is at least 1.
\<close>

definition titleScore :: "string \<Rightarrow> string \<Rightarrow> real" where
  "titleScore query ttl =
     (let queryWords = splitWs (toLowerCase query);
          titleWords = splitWs (toLowerCase ttl);
          titleMatches =
            filter (\<lambda>word. list_ex (\<lambda>titleWord. includes_str titleWord word) titleWords)
              queryWords
      in real (length titleMatches) / real (length queryWords))"

definition calculateRelevanceScore ::
  "real \<Rightarrow> 'a EmbeddedChunk_scheme \<Rightarrow> string \<Rightarrow> num \<Rightarrow> num" where
  "calculateRelevanceScore now chunk query sim =
     (let score = num_mul sim (Fin 0.7);
          score = num_add score (num_mul (recencyScore now (pubDate (meta chunk))) (Fin 0.2));
          score = num_add score (num_mul (Fin (titleScore query (title (meta chunk)))) (Fin 0.1))
      in num_min score (Fin 1))"

definition scoreChunk :: "real \<Rightarrow> num list \<Rightarrow> string \<Rightarrow> EmbeddedChunk \<Rightarrow> SearchResult" where
  "scoreChunk now queryEmbedding query chunk =
     (let sim = cosineSimilarity queryEmbedding (embedding chunk);
          rel = calculateRelevanceScore now chunk query sim
      in EmbeddedChunk.extend chunk (SearchResult.fields sim rel))"

text \<open>
  \<^verbatim>\<open>results.sort((a, b) => b.relevanceScore - a.relevanceScore)\<close>. The sort is stable;
  it puts \<open>b\<close> before \<open>a\<close> when the comparator's value is positive and reads a \<open>NaN\<close>
  value as 0. \<open>comesAfter a b\<close> says that the value for \<open>a\<close> and \<open>b\<close> is positive. The
  sort is written as the stable insertion sort: where the comparator is consistent, as on
  scores without \<open>NaN\<close> or on two elements, every stable sort gives this result; where
  it is not, the order is left to the implementation, and this is one such order.
\<close>

definition comesAfter :: "SearchResult \<Rightarrow> SearchResult \<Rightarrow> bool" where
  "comesAfter a b = num_less (Fin 0) (num_sub (relevanceScore b) (relevanceScore a))"

fun insertByRelevance :: "SearchResult \<Rightarrow> SearchResult list \<Rightarrow> SearchResult list" where
  "insertByRelevance a [] = [a]"
| "insertByRelevance a (b # bs) =
     (if comesAfter a b then b # insertByRelevance a bs else a # b # bs)"

definition sortByRelevance :: "SearchResult list \<Rightarrow> SearchResult list" where
  "sortByRelevance results = foldr insertByRelevance results []"

text \<open>
  \<open>searchSimilarChunks\<close>: \<open>chunks\<close> is what \<^verbatim>\<open>loadEmbeddedChunks()\<close> returned,
  \<open>queryEmbedding\<close> what \<^verbatim>\<open>createEmbedding(query)\<close> returned, and \<open>topK\<close> a count.
\<close>

definition searchSimilarChunks ::
  "real \<Rightarrow> EmbeddedChunk list \<Rightarrow> num list \<Rightarrow> string \<Rightarrow> nat \<Rightarrow> SearchResult list" where
  "searchSimilarChunks now chunks queryEmbedding query topK =
     (if length chunks = 0 then []
      else
        let results = map (scoreChunk now queryEmbedding query) chunks;
            topResults =
              filter (\<lambda>result. num_less (Fin 0.1) (similarity result))
                (take topK (sortByRelevance results))
        in topResults)"

text \<open>
  The search as the specification words it: sort, drop the results with similarity at
  most 0.1, then keep the first \<open>k\<close>. It is compared with \<open>searchSimilarChunks\<close> below.
\<close>

definition search_as_specified ::
  "real \<Rightarrow> EmbeddedChunk list \<Rightarrow> num list \<Rightarrow> string \<Rightarrow> nat \<Rightarrow> SearchResult list" where
  "search_as_specified now chunks queryEmbedding query k =
     take k (filter (\<lambda>result. num_less (Fin 0.1) (similarity result))
       (sortByRelevance (map (scoreChunk now queryEmbedding query) chunks)))"

text \<open>
  Every chunk of the corpus gets a relevance that is a finite number: no \<open>NaN\<close> from
  a publish date that does not parse or from a similarity that is not finite.
\<close>

definition finite_relevance ::
  "real \<Rightarrow> num list \<Rightarrow> string \<Rightarrow> EmbeddedChunk list \<Rightarrow> bool" where
  "finite_relevance now queryEmbedding query chunks =
     list_all (\<lambda>c. is_fin (relevanceScore (scoreChunk now queryEmbedding query c))) chunks"

section \<open>Embedding provider\<close>

text \<open>
  \<open>hashString\<close>: \<^verbatim>\<open>hash = (hash << 5) - hash + char; hash = hash & hash\<close> keeps the
  hash a 32-bit two's complement integer; \<^verbatim>\<open>Math.abs\<close> is taken on its signed value.
\<close>

definition hashStep :: "32 word \<Rightarrow> char \<Rightarrow> 32 word" where
  "hashStep hash c = push_bit 5 hash - hash + of_nat (of_char c)"

definition hashString :: "string \<Rightarrow> nat" where
  "hashString str = nat \<bar>sint (foldl hashStep 0 str)\<bar>"

text \<open>The inner loop of \<open>createDeterministicEmbedding\<close> for one word.\<close>

definition addWord :: "real list \<Rightarrow> string \<times> nat \<Rightarrow> real list" where
  "addWord emb wi =
     (let word = fst wi; wordIndex = snd wi; wordHash = hashString word
      in foldl (\<lambda>e i.
            let position = (wordHash + i + wordIndex) mod 768
            in e[position := e ! position + sin (real (wordHash + i)) * 0.1])
          emb [0..<768])"

definition addFeatures :: "real \<Rightarrow> real \<Rightarrow> real list \<Rightarrow> real list" where
  "addFeatures textLength uniqueChars emb =
     foldl (\<lambda>e i.
        let e = e[i := e ! i + textLength * 0.2]
        in e[i + 50 := e ! (i + 50) + uniqueChars * 0.2])
      emb [0..<50]"

text \<open>The vector before the last two statements of \<open>createDeterministicEmbedding\<close>.\<close>

definition rawEmbedding :: "string \<Rightarrow> real list" where
  "rawEmbedding txt =
     (let words = splitWs (toLowerCase txt);
          emb = replicate 768 0;
          emb = foldl addWord emb (zip words [0..<length words]);
          textLength = min (real (length txt) / 1000) 1;
          uniqueChars = real (length (remdups (toLowerCase txt))) / 26
      in addFeatures textLength uniqueChars emb)"

definition magnitude :: "real list \<Rightarrow> real" where
  "magnitude v = sqrt (foldl (\<lambda>sum a. sum + a * a) 0 v)"

text \<open>
  \<^verbatim>\<open>const magnitude = Math.sqrt(embedding.reduce(...));
  return embedding.map((val) => val / magnitude)\<close>
\<close>

definition normalizeEmbedding :: "real list \<Rightarrow> num list" where
  "normalizeEmbedding emb = (let m = magnitude emb in map (\<lambda>val. js_div val m) emb)"

definition createDeterministicEmbedding :: "string \<Rightarrow> num list" where
  "createDeterministicEmbedding txt = normalizeEmbedding (rawEmbedding txt)"

text \<open>
  \<^verbatim>\<open>Buffer.from(text)\<close> is the UTF-8 encoding of the text and
  \<^verbatim>\<open>toString("base64")\<close> the padded base64 encoding of the bytes.
\<close>

definition utf8 :: "string \<Rightarrow> nat list" where
  "utf8 s = concat (map (\<lambda>c. let n = (of_char c :: nat)
                               in if n < 128 then [n] else [192 + n div 64, 128 + n mod 64]) s)"

definition b64char :: "nat \<Rightarrow> char" where
  "b64char n =
     (if n < 26 then char_of (65 + n)
      else if n < 52 then char_of (97 + (n - 26))
      else if n < 62 then char_of (48 + (n - 52))
      else if n = 62 then CHR ''+'' else CHR ''/'')"

fun base64 :: "nat list \<Rightarrow> string" where
  "base64 [] = []"
| "base64 [a] = [b64char (a div 4), b64char ((a mod 4) * 16), CHR ''='', CHR ''='']"
| "base64 [a, b] =
     [b64char (a div 4), b64char ((a mod 4) * 16 + b div 16), b64char ((b mod 16) * 4),
      CHR ''='']"
| "base64 (a # b # c # rest) =
     [b64char (a div 4), b64char ((a mod 4) * 16 + b div 16),
      b64char ((b mod 16) * 4 + c div 64), b64char (c mod 64)] @ base64 rest"

definition embeddingCacheKey :: "string \<Rightarrow> string" where
  "embeddingCacheKey txt = ''embedding:'' @ take 50 (base64 (utf8 txt))"

text \<open>
  What the call to the provider gives: \<^verbatim>\<open>fetch\<close> throws, the response is not
  \<^verbatim>\<open>ok\<close>, \<^verbatim>\<open>response.json()\<close> throws, or the body parses and \<^verbatim>\<open>data.data\<close> is
  absent or the list of the embeddings of its items.
\<close>

datatype provider_result =
    FetchThrows
  | NotOk nat
  | JsonThrows
  | Body "num list list option"

text \<open>A JavaScript string or \<^verbatim>\<open>undefined\<close> that is truthy.\<close>

fun truthy_str :: "string option \<Rightarrow> bool" where
  "truthy_str None = False"
| "truthy_str (Some s) = (s \<noteq> [])"

type_synonym embeddingCache = "string \<rightharpoonup> num list"

definition createEmbedding ::
  "string option \<Rightarrow> provider_result \<Rightarrow> embeddingCache \<Rightarrow> string \<Rightarrow> embeddingCache \<times> num list" where
  "createEmbedding jinaApiKey response cache txt =
     (let cacheKey = embeddingCacheKey txt in
      case cache cacheKey of
        Some v \<Rightarrow> (cache, v)
      | None \<Rightarrow>
          if \<not> truthy_str jinaApiKey then (cache, createDeterministicEmbedding txt)
          else (case response of
              FetchThrows \<Rightarrow> (cache, createDeterministicEmbedding txt)
            | NotOk status \<Rightarrow> (cache, createDeterministicEmbedding txt)
            | JsonThrows \<Rightarrow> (cache, createDeterministicEmbedding txt)
            | Body None \<Rightarrow> (cache, createDeterministicEmbedding txt)
            | Body (Some []) \<Rightarrow> (cache, createDeterministicEmbedding txt)
            | Body (Some (e # es)) \<Rightarrow> (cache(cacheKey \<mapsto> e), e)))"

definition createBatchEmbeddings ::
  "string option \<Rightarrow> provider_result \<Rightarrow> string list \<Rightarrow> num list list" where
  "createBatchEmbeddings jinaApiKey response texts =
     (if \<not> truthy_str jinaApiKey then map createDeterministicEmbedding texts
      else (case response of
          FetchThrows \<Rightarrow> map createDeterministicEmbedding texts
        | NotOk status \<Rightarrow> map createDeterministicEmbedding texts
        | JsonThrows \<Rightarrow> map createDeterministicEmbedding texts
        | Body None \<Rightarrow> map createDeterministicEmbedding texts
        | Body (Some items) \<Rightarrow> items))"

section \<open>JSON text\<close>

text \<open>
  \<^verbatim>\<open>JSON.parse\<close> on the JSON grammar; \<open>None\<close> is the \<^verbatim>\<open>SyntaxError\<close>. A string
  value holds its characters with the escape sequences resolved; a code unit above 255
  is not a \<^typ>\<open>char\<close>, and its escape is kept as the six characters it is written with.
  A number is held as its lexeme, \<open>numberValue\<close> is the real number the lexeme
  denotes. The recursion carries fuel, two units for each character of the text.
\<close>

datatype json =
    JNull
  | JBool bool
  | JNumber string
  | JString string
  | JArray "json list"
  | JObject "(string \<times> json) list"

definition isJsonWs :: "char \<Rightarrow> bool" where
  "isJsonWs c = ((of_char c :: nat) \<in> {9, 10, 13, 32})"

definition skipWs :: "string \<Rightarrow> string" where
  "skipWs s = dropWhile isJsonWs s"

definition isDigit :: "char \<Rightarrow> bool" where
  "isDigit c = (48 \<le> (of_char c :: nat) \<and> (of_char c :: nat) \<le> 57)"

definition isHex :: "char \<Rightarrow> bool" where
  "isHex c = (isDigit c \<or> (65 \<le> (of_char c :: nat) \<and> (of_char c :: nat) \<le> 70)
                \<or> (97 \<le> (of_char c :: nat) \<and> (of_char c :: nat) \<le> 102))"

definition quoteChar :: char where "quoteChar = CHR 0x22"

definition backslash :: char where "backslash = CHR 0x5C"

definition hexDigit :: "char \<Rightarrow> nat" where
  "hexDigit c =
     (let n = (of_char c :: nat)
      in if n \<le> 57 then n - 48 else if n \<le> 70 then n - 55 else n - 87)"

text \<open>The character that the escape \<^verbatim>\<open>\e\<close> stands for.\<close>

definition unescape :: "char \<Rightarrow> char" where
  "unescape e =
     (if e = CHR ''b'' then char_of (8 :: nat)
      else if e = CHR ''f'' then char_of (12 :: nat)
      else if e = CHR ''n'' then char_of (10 :: nat)
      else if e = CHR ''r'' then char_of (13 :: nat)
      else if e = CHR ''t'' then char_of (9 :: nat)
      else e)"

definition unicodeEscape :: "char \<Rightarrow> char \<Rightarrow> char \<Rightarrow> char \<Rightarrow> string" where
  "unicodeEscape h1 h2 h3 h4 =
     (let v = ((hexDigit h1 * 16 + hexDigit h2) * 16 + hexDigit h3) * 16 + hexDigit h4
      in if v < 256 then [char_of v] else [backslash, CHR ''u'', h1, h2, h3, h4])"

fun parseStringBody :: "string \<Rightarrow> (string \<times> string) option" where
  "parseStringBody [] = None"
| "parseStringBody (c # cs) =
     (if c = quoteChar then Some ([], cs)
      else if c = backslash then
        (case cs of
           [] \<Rightarrow> None
         | e # r \<Rightarrow>
             if e \<in> set [quoteChar, backslash, CHR ''/'', CHR ''b'', CHR ''f'', CHR ''n'',
                          CHR ''r'', CHR ''t''] then
               (case parseStringBody r of
                  None \<Rightarrow> None
                | Some (str, rest) \<Rightarrow> Some (unescape e # str, rest))
             else if e = CHR ''u'' then
               (case r of
                  h1 # h2 # h3 # h4 # r' \<Rightarrow>
                    if isHex h1 \<and> isHex h2 \<and> isHex h3 \<and> isHex h4 then
                      (case parseStringBody r' of
                         None \<Rightarrow> None
                       | Some (str, rest) \<Rightarrow> Some (unicodeEscape h1 h2 h3 h4 @ str, rest))
                    else None
                | _ \<Rightarrow> None)
             else None)
      else if (of_char c :: nat) < 32 then None
      else (case parseStringBody cs of
              None \<Rightarrow> None
            | Some (str, rest) \<Rightarrow> Some (c # str, rest)))"

definition parseDigits :: "string \<Rightarrow> (string \<times> string) option" where
  "parseDigits s =
     (if takeWhile isDigit s = [] then None
      else Some (takeWhile isDigit s, dropWhile isDigit s))"

definition parseInt :: "string \<Rightarrow> (string \<times> string) option" where
  "parseInt s =
     (case s of
        [] \<Rightarrow> None
      | d # r \<Rightarrow>
          if d = CHR ''0'' then Some ([d], r)
          else if isDigit d then Some (d # takeWhile isDigit r, dropWhile isDigit r)
          else None)"

definition parseFrac :: "string \<Rightarrow> (string \<times> string) option" where
  "parseFrac s =
     (case s of
        [] \<Rightarrow> Some ([], s)
      | d # r \<Rightarrow>
          if d = CHR ''.'' then
            (case parseDigits r of None \<Rightarrow> None | Some (ds, rest) \<Rightarrow> Some (d # ds, rest))
          else Some ([], s))"

definition parseExp :: "string \<Rightarrow> (string \<times> string) option" where
  "parseExp s =
     (case s of
        [] \<Rightarrow> Some ([], s)
      | e # r \<Rightarrow>
          if e = CHR ''e'' \<or> e = CHR ''E'' then
            (case r of
               [] \<Rightarrow> None
             | sg # r' \<Rightarrow>
                 if sg = CHR ''+'' \<or> sg = CHR ''-'' then
                   (case parseDigits r' of
                      None \<Rightarrow> None
                    | Some (ds, rest) \<Rightarrow> Some (e # sg # ds, rest))
                 else
                   (case parseDigits r of
                      None \<Rightarrow> None
                    | Some (ds, rest) \<Rightarrow> Some (e # ds, rest)))
          else Some ([], s))"

definition parseNumber :: "string \<Rightarrow> (string \<times> string) option" where
  "parseNumber s =
     (let sg = (if s \<noteq> [] \<and> hd s = CHR ''-'' then ''-'' else []);
          s1 = drop (length sg) s
      in case parseInt s1 of
           None \<Rightarrow> None
         | Some (ip, s2) \<Rightarrow>
             (case parseFrac s2 of
                None \<Rightarrow> None
              | Some (fp, s3) \<Rightarrow>
                  (case parseExp s3 of
                     None \<Rightarrow> None
                   | Some (ep, s4) \<Rightarrow> Some (sg @ ip @ fp @ ep, s4))))"

fun parseValue :: "nat \<Rightarrow> string \<Rightarrow> (json \<times> string) option"
  and parseElements :: "nat \<Rightarrow> string \<Rightarrow> (json list \<times> string) option"
  and parseMembers :: "nat \<Rightarrow> string \<Rightarrow> ((string \<times> json) list \<times> string) option" where
  "parseValue 0 s = None"
| "parseValue (Suc n) s =
     (case s of
        [] \<Rightarrow> None
      | c # cs \<Rightarrow>
          if c = CHR ''{'' then
            (if skipWs cs \<noteq> [] \<and> hd (skipWs cs) = CHR ''}'' then
               Some (JObject [], tl (skipWs cs))
             else (case parseMembers n (skipWs cs) of
                     None \<Rightarrow> None
                   | Some (ms, rest) \<Rightarrow> Some (JObject ms, rest)))
          else if c = CHR ''['' then
            (if skipWs cs \<noteq> [] \<and> hd (skipWs cs) = CHR '']'' then
               Some (JArray [], tl (skipWs cs))
             else (case parseElements n (skipWs cs) of
                     None \<Rightarrow> None
                   | Some (vs, rest) \<Rightarrow> Some (JArray vs, rest)))
          else if c = quoteChar then
            (case parseStringBody cs of
               None \<Rightarrow> None
             | Some (str, rest) \<Rightarrow> Some (JString str, rest))
          else if c = CHR ''-'' \<or> isDigit c then
            (case parseNumber s of
               None \<Rightarrow> None
             | Some (lexeme, rest) \<Rightarrow> Some (JNumber lexeme, rest))
          else if startsWith s ''true'' then Some (JBool True, drop 4 s)
          else if startsWith s ''false'' then Some (JBool False, drop 5 s)
          else if startsWith s ''null'' then Some (JNull, drop 4 s)
          else None)"
| "parseElements 0 s = None"
| "parseElements (Suc n) s =
     (case parseValue n s of
        None \<Rightarrow> None
      | Some (v, r) \<Rightarrow>
          (case skipWs r of
             [] \<Rightarrow> None
           | d # r' \<Rightarrow>
               if d = CHR '','' then
                 (case parseElements n (skipWs r') of
                    None \<Rightarrow> None
                  | Some (vs, rest) \<Rightarrow> Some (v # vs, rest))
               else if d = CHR '']'' then Some ([v], r')
               else None))"
| "parseMembers 0 s = None"
| "parseMembers (Suc n) s =
     (case s of
        [] \<Rightarrow> None
      | q # cs \<Rightarrow>
          if q \<noteq> quoteChar then None
          else
            (case parseStringBody cs of
               None \<Rightarrow> None
             | Some (k, r) \<Rightarrow>
                 (case skipWs r of
                    [] \<Rightarrow> None
                  | colon # r1 \<Rightarrow>
                      if colon \<noteq> CHR '':'' then None
                      else
                        (case parseValue n (skipWs r1) of
                           None \<Rightarrow> None
                         | Some (v, r2) \<Rightarrow>
                             (case skipWs r2 of
                                [] \<Rightarrow> None
                              | d # r3 \<Rightarrow>
                                  if d = CHR '','' then
                                    (case parseMembers n (skipWs r3) of
                                       None \<Rightarrow> None
                                     | Some (ms, rest) \<Rightarrow> Some ((k, v) # ms, rest))
                                  else if d = CHR ''}'' then Some ([(k, v)], r3)
                                  else None)))))"

definition JSON_parse :: "string \<Rightarrow> json option" where
  "JSON_parse s =
     (case parseValue (2 * length s + 2) (skipWs s) of
        None \<Rightarrow> None
      | Some (v, rest) \<Rightarrow> if skipWs rest = [] then Some v else None)"

definition digitsValue :: "string \<Rightarrow> nat" where
  "digitsValue ds = foldl (\<lambda>n d. 10 * n + ((of_char d :: nat) - 48)) 0 ds"

text \<open>The real number that the lexeme of a JSON number denotes.\<close>

definition numberValue :: "string \<Rightarrow> real" where
  "numberValue lexeme =
     (let negative = (lexeme \<noteq> [] \<and> hd lexeme = CHR ''-'');
          s1 = (if negative then tl lexeme else lexeme);
          ip = takeWhile isDigit s1;
          r1 = dropWhile isDigit s1;
          hasFrac = (r1 \<noteq> [] \<and> hd r1 = CHR ''.'');
          fp = (if hasFrac then takeWhile isDigit (tl r1) else []);
          r2 = (if hasFrac then dropWhile isDigit (tl r1) else r1);
          es = (if r2 = [] then [] else tl r2);
          eneg = (es \<noteq> [] \<and> hd es = CHR ''-'');
          ed = (if es \<noteq> [] \<and> (hd es = CHR ''-'' \<or> hd es = CHR ''+'') then tl es else es);
          e = (if eneg then - int (digitsValue ed) else int (digitsValue ed)) - int (length fp);
          m = real (digitsValue (ip @ fp));
          v = (if 0 \<le> e then m * 10 ^ nat e else m / 10 ^ nat (- e))
      in if negative then - v else v)"

text \<open>
  The truthiness of a parsed value, as \<^verbatim>\<open>Boolean(v)\<close> and \<^verbatim>\<open>!v\<close> see it. A number is
  falsy when it is 0 as a double, which is when the magnitude of its value is at most
  \<open>2^-1075\<close>: such a value rounds to 0, a larger one does not.
\<close>

fun truthy :: "json \<Rightarrow> bool" where
  "truthy JNull = False"
| "truthy (JBool b) = b"
| "truthy (JNumber lexeme) = (1 / 2 ^ 1075 < \<bar>numberValue lexeme\<bar>)"
| "truthy (JString s) = (s \<noteq> [])"
| "truthy (JArray vs) = True"
| "truthy (JObject ms) = True"

text \<open>
  \<^verbatim>\<open>String(v)\<close> of a parsed value: an array is its elements joined by commas, with
  nothing for \<^verbatim>\<open>null\<close>; an object is \<^verbatim>\<open>[object Object]\<close>; a number is taken in the
  form of its lexeme.
\<close>

fun joinComma :: "string list \<Rightarrow> string" where
  "joinComma [] = []"
| "joinComma [s] = s"
| "joinComma (s # t # ts) = s @ '','' @ joinComma (t # ts)"

fun toString :: "json \<Rightarrow> string" where
  "toString JNull = ''null''"
| "toString (JBool b) = (if b then ''true'' else ''false'')"
| "toString (JNumber lexeme) = lexeme"
| "toString (JString s) = s"
| "toString (JArray vs) = joinComma (map (\<lambda>v. if v = JNull then [] else toString v) vs)"
| "toString (JObject ms) = ''[object Object]''"

section \<open>Corpus loading\<close>

text \<open>
  The module variables of the vector store. \<open>embeddedChunks\<close> starts as \<open>JNull\<close>;
  \<open>file\<close> is the text of \<^verbatim>\<open>data/embedded_chunks.json\<close>, \<open>None\<close> when
  \<^verbatim>\<open>readFileSync\<close> throws.
\<close>

record vector_store =
  embeddedChunks :: json
  embeddedWarningLogged :: bool
  vs_console :: "string list"

definition vector_store_init :: vector_store where
  "vector_store_init =
     \<lparr> embeddedChunks = JNull, embeddedWarningLogged = False, vs_console = [] \<rparr>"

definition loadEmbeddedChunks :: "string option \<Rightarrow> vector_store \<Rightarrow> json \<times> vector_store" where
  "loadEmbeddedChunks file vs =
     (if truthy (embeddedChunks vs) then (embeddedChunks vs, vs)
      else
        (case (case file of None \<Rightarrow> None | Some data \<Rightarrow> JSON_parse data) of
           Some parsed \<Rightarrow>
             (if truthy parsed then parsed else JArray [],
              vs\<lparr> embeddedChunks := parsed,
                  vs_console := vs_console vs @ [''[news-bot] Loaded embedded chunks''] \<rparr>)
         | None \<Rightarrow>
             (JArray [],
              if \<not> embeddedWarningLogged vs then
                vs\<lparr> vs_console := vs_console vs @ [''[news-bot] No embeddings found.''],
                    embeddedWarningLogged := True \<rparr>
              else vs)))"

section \<open>Backing store\<close>

text \<open>
  The key/value server as the commands of \<^verbatim>\<open>lib/redis.ts\<close> see it: string values,
  lists and times to live. A missing list is the empty list.
\<close>

record store =
  strings :: "string \<rightharpoonup> string"
  lists :: "string \<Rightarrow> string list"
  expiry :: "string \<rightharpoonup> nat"

definition store_empty :: store where
  "store_empty = \<lparr> strings = Map.empty, lists = (\<lambda>k. []), expiry = Map.empty \<rparr>"

text \<open>
  The part of a list between two indices, both inclusive, where a negative index counts
  from the end and an index out of range is clamped: the rule of LRANGE and LTRIM.
\<close>

definition list_range :: "'a list \<Rightarrow> int \<Rightarrow> int \<Rightarrow> 'a list" where
  "list_range xs start stop =
     (let n = int (length xs);
          s = (if start < 0 then max 0 (n + start) else start);
          e = (if stop < 0 then n + stop else min stop (n - 1))
      in if e < s \<or> n \<le> s then [] else take (nat (e - s + 1)) (drop (nat s) xs))"

definition redis_set :: "store \<Rightarrow> string \<Rightarrow> string \<Rightarrow> store" where
  "redis_set db k v = db\<lparr> strings := (strings db)(k \<mapsto> v), expiry := (expiry db)(k := None) \<rparr>"

definition redis_setex :: "store \<Rightarrow> string \<Rightarrow> nat \<Rightarrow> string \<Rightarrow> store" where
  "redis_setex db k secs v =
     db\<lparr> strings := (strings db)(k \<mapsto> v), expiry := (expiry db)(k \<mapsto> secs) \<rparr>"

definition redis_rpush :: "store \<Rightarrow> string \<Rightarrow> string \<Rightarrow> store" where
  "redis_rpush db k v = db\<lparr> lists := (lists db)(k := lists db k @ [v]) \<rparr>"

definition redis_expire :: "store \<Rightarrow> string \<Rightarrow> nat \<Rightarrow> store" where
  "redis_expire db k secs =
     (if lists db k \<noteq> [] \<or> strings db k \<noteq> None then db\<lparr> expiry := (expiry db)(k \<mapsto> secs) \<rparr>
      else db)"

definition redis_ltrim :: "store \<Rightarrow> string \<Rightarrow> int \<Rightarrow> int \<Rightarrow> store" where
  "redis_ltrim db k start stop = db\<lparr> lists := (lists db)(k := list_range (lists db k) start stop) \<rparr>"

definition redis_lrange :: "store \<Rightarrow> string \<Rightarrow> int \<Rightarrow> int \<Rightarrow> string list" where
  "redis_lrange db k start stop = list_range (lists db k) start stop"

section \<open>Cache layer and session store\<close>

record client =
  client_url :: string
  client_token :: string

record process_env =
  KV_REST_API_URL :: "string option"
  KV_REST_API_TOKEN :: "string option"
  KV_REST_API_READ_ONLY_TOKEN :: "string option"
  DISABLE_REDIS :: "string option"

text \<open>
  The commands a call can issue (\<open>NEW\<close> is the constructor of the client). A \<open>net\<close>
  gives, for each, \<open>None\<close> when it succeeds and the text of the error when it throws.
\<close>

datatype redis_op = NEW | SET | SETEX | GET | RPUSH | EXPIRE | LTRIM | LRANGE | DEL

type_synonym net = "redis_op \<Rightarrow> string option"

definition net_ok :: net where
  "net_ok = (\<lambda>cmd. None)"

text \<open>The four module variables of \<^verbatim>\<open>lib/redis.ts\<close> and the lines written to the console.\<close>

record redis_module =
  redisClient :: "client option"
  readOnlyRedisClient :: "client option"
  redisDisabled :: bool
  redisErrorLogged :: bool
  console :: "string list"

definition redis_module_init :: "process_env \<Rightarrow> redis_module" where
  "redis_module_init env =
     \<lparr> redisClient = None, readOnlyRedisClient = None,
       redisDisabled = (DISABLE_REDIS env = Some ''true''),
       redisErrorLogged = False, console = [] \<rparr>"

definition log_line :: "string \<Rightarrow> redis_module \<Rightarrow> redis_module" where
  "log_line msg m = m\<lparr> console := console m @ [msg] \<rparr>"

definition missing_write_config :: string where
  "missing_write_config = ''[news-bot] Missing Redis environment variables for write client''"

definition getRedisClient ::
  "process_env \<Rightarrow> net \<Rightarrow> redis_module \<times> store \<Rightarrow> client option \<times> redis_module \<times> store" where
  "getRedisClient env net w =
     (let m = fst w; db = snd w in
      if redisDisabled m then (None, m, db)
      else
        (case redisClient m of
           Some c \<Rightarrow> (Some c, m, db)
         | None \<Rightarrow>
             let m1 = log_line ''[news-bot] Redis environment check:'' m in
             if \<not> truthy_str (KV_REST_API_URL env) \<or> \<not> truthy_str (KV_REST_API_TOKEN env) then
               (None, log_line missing_write_config m1, db)
             else
               (case net NEW of
                  Some err \<Rightarrow>
                    (None,
                     (log_line ''[news-bot] Failed to initialize Upstash Redis:'' m1)
                       \<lparr> redisClient := None, redisDisabled := True \<rparr>,
                     db)
                | None \<Rightarrow>
                    let c = \<lparr> client_url = the (KV_REST_API_URL env),
                              client_token = the (KV_REST_API_TOKEN env) \<rparr>;
                        m2 = m1\<lparr> redisClient := Some c \<rparr>
                    in (case net SET of
                          Some err \<Rightarrow>
                            (None,
                             (log_line
                                ''[news-bot] Redis connection test failed; disabling Redis:'' m2)
                               \<lparr> redisClient := None, redisDisabled := True \<rparr>,
                             db)
                        | None \<Rightarrow>
                            (Some c,
                             log_line
                               ''[news-bot] Upstash Redis Client Initialized and Connected'' m2,
                             redis_set db ''healthcheck'' ''ok'')))))"

definition getReadOnlyRedisClient ::
  "process_env \<Rightarrow> net \<Rightarrow> redis_module \<Rightarrow> client option \<times> redis_module" where
  "getReadOnlyRedisClient env net m =
     (if redisDisabled m then (None, m)
      else
        (case readOnlyRedisClient m of
           Some c \<Rightarrow> (Some c, m)
         | None \<Rightarrow>
             let token = (if truthy_str (KV_REST_API_READ_ONLY_TOKEN env)
                          then KV_REST_API_READ_ONLY_TOKEN env else KV_REST_API_TOKEN env) in
             if \<not> truthy_str (KV_REST_API_URL env) \<or> \<not> truthy_str token then
               (None,
                log_line ''[news-bot] Missing Redis environment variables for read-only client'' m)
             else
               (case net NEW of
                  Some err \<Rightarrow>
                    (None,
                     (log_line ''[news-bot] Failed to initialize read-only Redis client:'' m)
                       \<lparr> readOnlyRedisClient := None, redisDisabled := True \<rparr>)
                | None \<Rightarrow>
                    let c = \<lparr> client_url = the (KV_REST_API_URL env), client_token = the token \<rparr>
                    in (Some c, m\<lparr> readOnlyRedisClient := Some c \<rparr>))))"

text \<open>
  \<open>setJson\<close> and \<open>pushJson\<close> take the text \<^verbatim>\<open>JSON.stringify(value)\<close>; \<open>Inl\<close> carries
  the message of the error the command threw.
\<close>

definition setJson :: "net \<Rightarrow> store \<Rightarrow> string \<Rightarrow> string \<Rightarrow> nat \<Rightarrow> string + store" where
  "setJson net db k js ttl =
     (if ttl \<noteq> 0 then
        (case net SETEX of Some err \<Rightarrow> Inl err | None \<Rightarrow> Inr (redis_setex db k ttl js))
      else
        (case net SET of Some err \<Rightarrow> Inl err | None \<Rightarrow> Inr (redis_set db k js)))"

text \<open>
  The \<^verbatim>\<open>@upstash/redis\<close> client that \<^verbatim>\<open>new Redis({ url, token })\<close> builds is not part of
  the sources. Its handling of a reply is taken from the library: every string of a
  reply is given to \<^verbatim>\<open>JSON.parse\<close>, and the parsed value is handed to the caller; a
  string that does not parse is handed over as it is. (A number whose text is not its
  canonical form is handed over as that text; reading it again gives the same number.)
  \<open>asString\<close> is the string that \<^verbatim>\<open>JSON.parse(item as string)\<close> then reads.
\<close>

datatype reply = Raw string | Parsed json

definition parseResponse :: "string \<Rightarrow> reply" where
  "parseResponse s = (case JSON_parse s of None \<Rightarrow> Raw s | Some v \<Rightarrow> Parsed v)"

fun asString :: "reply \<Rightarrow> string" where
  "asString (Raw s) = s"
| "asString (Parsed v) = toString v"

fun reply_truthy :: "reply \<Rightarrow> bool" where
  "reply_truthy (Raw s) = (s \<noteq> [])"
| "reply_truthy (Parsed v) = truthy v"

text \<open>\<open>getJson\<close>: \<open>JNull\<close> is \<^verbatim>\<open>null\<close>.\<close>

definition getJson :: "net \<Rightarrow> store \<Rightarrow> string \<Rightarrow> string + json" where
  "getJson net db k =
     (case net GET of
        Some err \<Rightarrow> Inl err
      | None \<Rightarrow>
          (case strings db k of
             None \<Rightarrow> Inr JNull
           | Some stored \<Rightarrow>
               let v = parseResponse stored in
               if \<not> reply_truthy v then Inr JNull
               else (case JSON_parse (asString v) of
                       None \<Rightarrow> Inr JNull
                     | Some parsed \<Rightarrow> Inr parsed)))"

definition pushJson :: "net \<Rightarrow> store \<Rightarrow> string \<Rightarrow> string \<Rightarrow> string + store" where
  "pushJson net db k js =
     (case net RPUSH of Some err \<Rightarrow> Inl err | None \<Rightarrow> Inr (redis_rpush db k js))"

definition historyKey :: "string \<Rightarrow> string" where
  "historyKey sessionId = ''session:'' @ sessionId @ '':history''"

definition getSessionHistory ::
  "process_env \<Rightarrow> net \<Rightarrow> redis_module \<times> store \<Rightarrow> string \<Rightarrow> json list \<times> redis_module" where
  "getSessionHistory env net w sessionId =
     (let db = snd w; r = getReadOnlyRedisClient env net (fst w); m1 = snd r in
      case fst r of
        None \<Rightarrow> ([], log_line ''[news-bot] Redis not available, using in-memory fallback'' m1)
      | Some c \<Rightarrow>
          (case net LRANGE of
             Some err \<Rightarrow> ([], log_line ''[news-bot] Error getting session history:'' m1)
           | None \<Rightarrow>
               let history = map parseResponse (redis_lrange db (historyKey sessionId) 0 (- 1))
               in (filter truthy
                     (map (\<lambda>item. case JSON_parse (asString item) of
                                    None \<Rightarrow> JNull
                                  | Some v \<Rightarrow> v)
                        history),
                   m1)))"

definition addMessageToSession ::
  "process_env \<Rightarrow> net \<Rightarrow> redis_module \<times> store \<Rightarrow> string \<Rightarrow> string \<Rightarrow> redis_module \<times> store" where
  "addMessageToSession env net w sessionId message =
     (let r = getRedisClient env net w; m1 = fst (snd r); db1 = snd (snd r) in
      case fst r of
        None \<Rightarrow> (log_line ''[news-bot] Redis not available, skipping session storage'' m1, db1)
      | Some c \<Rightarrow>
          (case pushJson net db1 (historyKey sessionId) message of
             Inl err \<Rightarrow> (log_line ''[news-bot] Error adding message to session:'' m1, db1)
           | Inr db2 \<Rightarrow>
               (case net EXPIRE of
                  Some err \<Rightarrow> (log_line ''[news-bot] Error adding message to session:'' m1, db2)
                | None \<Rightarrow>
                    let db3 = redis_expire db2 (historyKey sessionId) (24 * 60 * 60) in
                    (case net LTRIM of
                       Some err \<Rightarrow>
                         (log_line ''[news-bot] Error adding message to session:'' m1, db3)
                     | None \<Rightarrow> (m1, redis_ltrim db3 (historyKey sessionId) (- 50) (- 1))))))"

definition is_auth_error :: "string \<Rightarrow> bool" where
  "is_auth_error msg = (includes_str msg ''WRONGPASS'' \<or> includes_str msg ''Unauthorized'')"

definition searchKey :: "string \<Rightarrow> string" where
  "searchKey query = ''search:'' @ base64 (utf8 query)"

definition cacheSearchResults ::
  "process_env \<Rightarrow> net \<Rightarrow> redis_module \<times> store \<Rightarrow> string \<Rightarrow> string \<Rightarrow> nat \<Rightarrow> redis_module \<times> store" where
  "cacheSearchResults env net w query results ttl =
     (let r = getRedisClient env net w; m1 = fst (snd r); db1 = snd (snd r) in
      case fst r of
        None \<Rightarrow> (m1, db1)
      | Some c \<Rightarrow>
          (case setJson net db1 (searchKey query) results ttl of
             Inr db2 \<Rightarrow> (m1, db2)
           | Inl msg \<Rightarrow>
               if is_auth_error msg then
                 (let m2 = m1\<lparr> redisDisabled := True, redisClient := None \<rparr> in
                  if \<not> redisErrorLogged m2 then
                    (log_line
                       ''[news-bot] Redis auth error while caching; disabling Redis for this run''
                       m2)\<lparr> redisErrorLogged := True \<rparr>
                  else m2,
                  db1)
               else (log_line ''[news-bot] Error caching search results:'' m1, db1)))"

definition getCachedSearchResults ::
  "process_env \<Rightarrow> net \<Rightarrow> redis_module \<times> store \<Rightarrow> string \<Rightarrow> json \<times> redis_module" where
  "getCachedSearchResults env net w query =
     (let db = snd w; r = getReadOnlyRedisClient env net (fst w); m1 = snd r in
      case fst r of
        None \<Rightarrow> (JNull, m1)
      | Some c \<Rightarrow>
          (case getJson net db (searchKey query) of
             Inr v \<Rightarrow> (v, m1)
           | Inl msg \<Rightarrow>
               if is_auth_error msg then
                 (let m2 = m1\<lparr> redisDisabled := True, readOnlyRedisClient := None \<rparr> in
                  (JNull,
                   if \<not> redisErrorLogged m2 then
                     (log_line
                        ''[news-bot] Redis auth error on read; disabling Redis for this run'' m2)
                       \<lparr> redisErrorLogged := True \<rparr>
                   else m2))
               else (JNull, log_line ''[news-bot] Error getting cached search results:'' m1)))"

text \<open>
  \<open>client_available\<close>: a call of \<open>getRedisClient\<close> gives a client, because the layer
  is not disabled and a write client exists or can be built and passes its test write.
  \<open>backend_up\<close>: moreover RPUSH, EXPIRE and LTRIM do not throw, so that every command of
  an append succeeds.
\<close>

definition client_available :: "process_env \<Rightarrow> net \<Rightarrow> redis_module \<Rightarrow> bool" where
  "client_available env net m =
     (\<not> redisDisabled m \<and>
      (redisClient m \<noteq> None \<or>
         (truthy_str (KV_REST_API_URL env) \<and> truthy_str (KV_REST_API_TOKEN env) \<and>
          net NEW = None \<and> net SET = None)))"

definition backend_up :: "process_env \<Rightarrow> net \<Rightarrow> redis_module \<Rightarrow> bool" where
  "backend_up env net m =
     (client_available env net m \<and>
      net RPUSH = None \<and> net EXPIRE = None \<and> net LTRIM = None)"

text \<open>One call of \<open>addMessageToSession\<close> after another, on the same session.\<close>

definition appendAll ::
  "process_env \<Rightarrow> net \<Rightarrow> redis_module \<times> store \<Rightarrow> string \<Rightarrow> string list \<Rightarrow> redis_module \<times> store" where
  "appendAll env net w sessionId messages =
     foldl (\<lambda>w message. addMessageToSession env net w sessionId message) w messages"

section \<open>Sample data\<close>

definition day100 :: real where
  "day100 = 1000 * 60 * 60 * 24 * 100"

text \<open>A chunk published at the time of the query whose title carries the query word.\<close>

definition chunkA :: EmbeddedChunk where
  "chunkA =
     \<lparr> chunk_id = ''a'', chunk_text = ''fresh'', embedding = [Fin 0, Fin 1],
       meta = \<lparr> title = ''ai news'', source = ''s'', link = ''l'', pubDate = Fin day100,
                chunkIndex = 0 \<rparr> \<rparr>"

text \<open>A chunk a hundred days old with an unrelated title.\<close>

definition chunkB :: EmbeddedChunk where
  "chunkB =
     \<lparr> chunk_id = ''b'', chunk_text = ''old'', embedding = [Fin 5, Fin 12],
       meta = \<lparr> title = ''weather'', source = ''s'', link = ''l'', pubDate = Fin 0,
                chunkIndex = 0 \<rparr> \<rparr>"

text \<open>A fresh chunk close to the query, with the query word in its title.\<close>

definition chunkC :: EmbeddedChunk where
  "chunkC =
     \<lparr> chunk_id = ''c'', chunk_text = ''close'', embedding = [Fin 3, Fin 4],
       meta = \<lparr> title = ''ai today'', source = ''s'', link = ''l'', pubDate = Fin day100,
                chunkIndex = 0 \<rparr> \<rparr>"

text \<open>
  A chunk in the direction of the query whose date string is empty, as the ingestion
  script writes it for a feed item without a date: its time value is \<open>NaN\<close>.
\<close>

definition chunkX :: EmbeddedChunk where
  "chunkX =
     \<lparr> chunk_id = ''x'', chunk_text = ''undated'', embedding = [Fin 1, Fin 0],
       meta = \<lparr> title = ''weather'', source = ''s'', link = ''l'', pubDate = NaN,
                chunkIndex = 0 \<rparr> \<rparr>"

definition env_missing :: process_env where
  "env_missing =
     \<lparr> KV_REST_API_URL = None, KV_REST_API_TOKEN = None,
       KV_REST_API_READ_ONLY_TOKEN = None, DISABLE_REDIS = None \<rparr>"

definition env_ok :: process_env where
  "env_ok =
     \<lparr> KV_REST_API_URL = Some ''https://kv'', KV_REST_API_TOKEN = Some ''secret'',
       KV_REST_API_READ_ONLY_TOKEN = None, DISABLE_REDIS = None \<rparr>"

text \<open>A backing store on which every command succeeds but EXPIRE, which times out.\<close>

definition net_expire_fails :: net where
  "net_expire_fails = net_ok(EXPIRE := Some ''timeout'')"

text \<open>Two questions that agree on their first 41 characters.\<close>

definition question_a :: string where
  "question_a = ''What is the latest news about artificial intelligence?''"

definition question_b :: string where
  "question_b = ''What is the latest news about artificial hearts?''"

text \<open>A store in which every list holds \<open>n\<close> entries.\<close>

definition log_of :: "nat \<Rightarrow> store" where
  "log_of n = store_empty\<lparr> lists := (\<lambda>k. replicate n ''{}'') \<rparr>"

text \<open>A corpus file whose second record is cut short, and the same file without it.\<close>

definition broken_corpus :: string where
  \<open>broken_corpus = ''[{"id":"c1"},{"id":]''\<close>

definition intact_corpus :: string where
  \<open>intact_corpus = ''[{"id":"c1"}]''\<close>

text \<open>A stored session message, and one cut short.\<close>

definition good_item :: string where
  \<open>good_item = ''{"role":"user","content":"hi"}''\<close>

definition bad_item :: string where
  \<open>bad_item = ''{"role":"user","content":''\<close>

text \<open>The store \<open>db\<close> with the log of the session replaced by \<open>items\<close>.\<close>

definition with_history :: "store \<Rightarrow> string \<Rightarrow> string list \<Rightarrow> store" where
  "with_history db sessionId items = db\<lparr> lists := (lists db)(historyKey sessionId := items) \<rparr>"

text \<open>A process started without connection configuration, before its first call.\<close>

definition fresh_process :: "redis_module \<times> store" where
  "fresh_process = (redis_module_init env_missing, store_empty)"

section \<open>Finite numbers\<close>

lemma fin_ops [simp]:
  "num_add (Fin x) (Fin y) = Fin (x + y)"
  "num_sub (Fin x) (Fin y) = Fin (x - y)"
  "num_mul (Fin x) (Fin y) = Fin (x * y)"
  "num_less (Fin x) (Fin y) = (x < y)"
  "num_le (Fin x) (Fin y) = (x \<le> y)"
  "num_max (Fin x) (Fin y) = Fin (max x y)"
  "num_min (Fin x) (Fin y) = Fin (min x y)"
  "y \<noteq> 0 \<Longrightarrow> num_div (Fin x) (Fin y) = Fin (x / y)"
  by (auto simp: num_add_def num_sub_def num_mul_def num_less_def num_le_def num_max_def
      num_min_def num_div_def js_div_def)

lemma is_fin_conv: "is_fin a \<longleftrightarrow> (\<exists>x. a = Fin x)"
  by (cases a) simp_all

lemma finite_vector: "list_all is_fin v \<Longrightarrow> v = map Fin (map the_fin v)"
  by (induction v) (auto simp: is_fin_conv)

section \<open>Cosine similarity\<close>

lemma dot_foldl:
  "length a = length b \<Longrightarrow>
   foldl (\<lambda>sum ab. num_add sum (num_mul (fst ab) (snd ab))) (Fin s) (zip (map Fin a) (map Fin b)) =
   Fin (s + sum_list (map2 (*) a b))"
  by (induction a b arbitrary: s rule: list_induct2) (simp_all add: add.assoc)

lemma dotProduct_fin:
  "length a = length b \<Longrightarrow> dotProduct (map Fin a) (map Fin b) = Fin (sum_list (map2 (*) a b))"
  using dot_foldl[of a b 0] by (simp add: dotProduct_def)

lemma sq_foldl:
  "foldl (\<lambda>sum a. num_add sum (num_mul a a)) (Fin s) (map Fin a) =
   Fin (s + sum_list (map (\<lambda>x. x * x) a))"
  by (induction a arbitrary: s) (simp_all add: add.assoc)

lemma sumsq_nonneg: "0 \<le> sum_list (map (\<lambda>a. a * a) v)" for v :: "real list"
  by (rule sum_list_nonneg) auto

lemma vectorMagnitude_fin:
  "vectorMagnitude (map Fin a) = Fin (sqrt (sum_list (map (\<lambda>x. x * x) a)))"
  using sq_foldl[of 0 a] sumsq_nonneg[of a] by (simp add: vectorMagnitude_def)

text \<open>The inequality of Cauchy and Schwarz for two lists of equal length.\<close>

lemma quadratic_expand:
  "length a = length b \<Longrightarrow>
   sum_list (map2 (\<lambda>x y. (x * t - y) * (x * t - y)) a b) =
   t * t * sum_list (map (\<lambda>x. x * x) a) - 2 * t * sum_list (map2 (*) a b)
     + sum_list (map (\<lambda>y. y * y) b)"
  for t :: real
  by (induction a b rule: list_induct2) (simp_all add: algebra_simps)

lemma sumsq_zero_iff: "sum_list (map (\<lambda>a. a * a) v) = 0 \<longleftrightarrow> (\<forall>a \<in> set v. a = 0)"
  for v :: "real list"
  by (induction v) (auto simp: add_nonneg_eq_0_iff sumsq_nonneg)

lemma dot_zero_left:
  "\<forall>x \<in> set a. x = 0 \<Longrightarrow> sum_list (map2 (*) a b) = 0" for a b :: "real list"
  by (induction a arbitrary: b) (auto simp: zip_Cons1 split: list.splits)

lemma cauchy_schwarz_lists:
  fixes a b :: "real list"
  assumes len: "length a = length b"
  shows "(sum_list (map2 (*) a b))\<^sup>2 \<le>
         sum_list (map (\<lambda>x. x * x) a) * sum_list (map (\<lambda>y. y * y) b)"
proof -
  let ?A = "sum_list (map (\<lambda>x. x * x) a)"
  let ?B = "sum_list (map (\<lambda>y. y * y) b)"
  let ?D = "sum_list (map2 (*) a b)"
  have nn: "0 \<le> t * t * ?A - 2 * t * ?D + ?B" for t :: real
  proof -
    have "0 \<le> sum_list (map2 (\<lambda>x y. (x * t - y) * (x * t - y)) a b)"
      by (rule sum_list_nonneg) (auto simp: zip_map_fst_snd)
    then show ?thesis using quadratic_expand[OF len, of t] by simp
  qed
  show ?thesis
  proof (cases "?A = 0")
    case True
    have "?D = 0"
      using True by (simp add: sumsq_zero_iff dot_zero_left)
    then show ?thesis using True by simp
  next
    case False
    then have pos: "0 < ?A" using sumsq_nonneg[of a] by simp
    have "0 \<le> (?D / ?A) * (?D / ?A) * ?A - 2 * (?D / ?A) * ?D + ?B" by (rule nn)
    also have "\<dots> = ?B - ?D\<^sup>2 / ?A" using pos by (simp add: field_simps power2_eq_square)
    finally have "?D\<^sup>2 / ?A \<le> ?B" by simp
    then show ?thesis using pos by (simp add: field_simps)
  qed
qed

lemma cosine_fin:
  assumes "length a = length b"
  shows "cosineSimilarity (map Fin a) (map Fin b) =
     (if sum_list (map (\<lambda>x. x * x) a) = 0 \<or> sum_list (map (\<lambda>x. x * x) b) = 0 then Fin 0
      else Fin (sum_list (map2 (*) a b) /
                (sqrt (sum_list (map (\<lambda>x. x * x) a)) * sqrt (sum_list (map (\<lambda>x. x * x) b)))))"
  using assms
  by (simp add: cosineSimilarity_def vectorMagnitude_fin dotProduct_fin Let_def)

lemma cosine_fin_range:
  fixes a b :: "real list"
  shows "\<exists>c. cosineSimilarity (map Fin a) (map Fin b) = Fin c \<and> - 1 \<le> c \<and> c \<le> 1"
proof (cases "length a = length b")
  case False
  then show ?thesis by (simp add: cosineSimilarity_def)
next
  case True
  let ?A = "sum_list (map (\<lambda>x. x * x) a)"
  let ?B = "sum_list (map (\<lambda>x. x * x) b)"
  let ?D = "sum_list (map2 (*) a b)"
  show ?thesis
  proof (cases "?A = 0 \<or> ?B = 0")
    case True
    then show ?thesis using cosine_fin[OF \<open>length a = length b\<close>] by auto
  next
    case False
    then have pos: "0 < ?A" "0 < ?B"
      using sumsq_nonneg[of a] sumsq_nonneg[of b] by auto
    have "sqrt (?D\<^sup>2) \<le> sqrt (?A * ?B)"
      using cauchy_schwarz_lists[OF \<open>length a = length b\<close>] by (rule real_sqrt_le_mono)
    then have le: "\<bar>?D\<bar> \<le> sqrt ?A * sqrt ?B"
      by (simp add: real_sqrt_mult)
    have dpos: "0 < sqrt ?A * sqrt ?B" using pos by simp
    have "\<bar>?D / (sqrt ?A * sqrt ?B)\<bar> \<le> 1"
      using le dpos by (simp add: field_simps)
    then have "- 1 \<le> ?D / (sqrt ?A * sqrt ?B) \<and> ?D / (sqrt ?A * sqrt ?B) \<le> 1"
      by linarith
    then show ?thesis using cosine_fin[OF \<open>length a = length b\<close>] False by simp
  qed
qed

lemma cosine_fin_self:
  fixes a :: "real list"
  assumes "vectorMagnitude (map Fin a) \<noteq> Fin 0"
  shows "cosineSimilarity (map Fin a) (map Fin a) = Fin 1"
proof -
  let ?A = "sum_list (map (\<lambda>x. x * x) a)"
  have nz: "?A \<noteq> 0" using assms by (auto simp: vectorMagnitude_fin)
  have d: "sum_list (map2 (*) a a) = ?A"
    by (induction a) simp_all
  have "sqrt ?A * sqrt ?A = ?A" using sumsq_nonneg[of a] by simp
  then show ?thesis using nz cosine_fin[of a a] d by simp
qed

text \<open>
  Claim C4. \<open>cosineSimilarity\<close> is 0 when the two vectors differ in length or when
  the magnitude computed for either is 0, whatever the vectors hold. On two vectors of
  finite numbers, with the arithmetic exact, it is a finite number between -1 and 1, and
  it is 1 on a vector of finite numbers and itself when the magnitude of the vector is
  not 0.
\<close>

theorem cosine_similarity_exact:
  "(length a \<noteq> length b \<longrightarrow> cosineSimilarity a b = Fin 0) \<and>
   (vectorMagnitude a = Fin 0 \<or> vectorMagnitude b = Fin 0 \<longrightarrow> cosineSimilarity a b = Fin 0) \<and>
   (list_all is_fin a \<and> list_all is_fin b \<longrightarrow>
      (\<exists>c. cosineSimilarity a b = Fin c \<and> - 1 \<le> c \<and> c \<le> 1)) \<and>
   (list_all is_fin a \<and> vectorMagnitude a \<noteq> Fin 0 \<longrightarrow> cosineSimilarity a a = Fin 1)"
proof (intro conjI impI)
  assume "length a \<noteq> length b"
  then show "cosineSimilarity a b = Fin 0" by (simp add: cosineSimilarity_def)
next
  assume "vectorMagnitude a = Fin 0 \<or> vectorMagnitude b = Fin 0"
  then show "cosineSimilarity a b = Fin 0" by (auto simp: cosineSimilarity_def Let_def)
next
  assume "list_all is_fin a \<and> list_all is_fin b"
  then have "a = map Fin (map the_fin a)" "b = map Fin (map the_fin b)"
    by (auto dest: finite_vector)
  then show "\<exists>c. cosineSimilarity a b = Fin c \<and> - 1 \<le> c \<and> c \<le> 1"
    using cosine_fin_range[of "map the_fin a" "map the_fin b"] by simp
next
  assume h: "list_all is_fin a \<and> vectorMagnitude a \<noteq> Fin 0"
  then have "a = map Fin (map the_fin a)" by (auto dest: finite_vector)
  then show "cosineSimilarity a a = Fin 1"
    using cosine_fin_self[of "map the_fin a"] h by simp
qed

lemma sqrt25: "sqrt 25 = 5"
  by (rule real_sqrt_unique) simp_all

lemma sqrt169: "sqrt 169 = 13"
  by (rule real_sqrt_unique) simp_all

theorem cosine_similarity_exact_witness:
  "length [Fin 1] \<noteq> length [Fin 1, Fin 2] \<and>
   cosineSimilarity [Fin 1] [Fin 1, Fin 2] = Fin 0 \<and>
   vectorMagnitude [Fin 0, Fin 0] = Fin 0 \<and>
   cosineSimilarity [Fin 0, Fin 0] [Fin 3, Fin 4] = Fin 0 \<and>
   list_all is_fin [Fin 3, Fin 4] \<and> list_all is_fin [Fin 4, Fin 3] \<and>
   cosineSimilarity [Fin 3, Fin 4] [Fin 4, Fin 3] = Fin (24 / 25) \<and>
   vectorMagnitude [Fin 3, Fin 4] \<noteq> Fin 0 \<and>
   cosineSimilarity [Fin 3, Fin 4] [Fin 3, Fin 4] = Fin 1"
proof -
  have 1: "length [Fin 1] \<noteq> length [Fin 1, Fin 2]" by simp
  have 2: "vectorMagnitude [Fin 0, Fin 0] = Fin 0" by (simp add: vectorMagnitude_def)
  have 3: "list_all is_fin [Fin 3, Fin 4]" "list_all is_fin [Fin 4, Fin 3]" by simp_all
  have 4: "vectorMagnitude [Fin 3, Fin 4] \<noteq> Fin 0" by (simp add: vectorMagnitude_def sqrt25)
  have 5: "cosineSimilarity [Fin 3, Fin 4] [Fin 4, Fin 3] = Fin (24 / 25)"
    by (simp add: cosineSimilarity_def vectorMagnitude_def dotProduct_def sqrt25 Let_def)
  from cosine_similarity_exact[of "[Fin 1]" "[Fin 1, Fin 2]"] 1
  have a: "cosineSimilarity [Fin 1] [Fin 1, Fin 2] = Fin 0" by blast
  from cosine_similarity_exact[of "[Fin 0, Fin 0]" "[Fin 3, Fin 4]"] 2
  have b: "cosineSimilarity [Fin 0, Fin 0] [Fin 3, Fin 4] = Fin 0" by blast
  from cosine_similarity_exact[of "[Fin 3, Fin 4]" "[Fin 4, Fin 3]"] 3 4
  have c: "cosineSimilarity [Fin 3, Fin 4] [Fin 3, Fin 4] = Fin 1" by blast
  show ?thesis by (intro conjI 1 2 3 4 5 a b c)
qed

text \<open>
  Claim C4 as it is worded fails: the vector whose one component is \<^verbatim>\<open>Infinity\<close>, the
  number that \<^verbatim>\<open>JSON.parse\<close> reads from \<^verbatim>\<open>1e400\<close>, has equal length with itself and a
  magnitude that is not 0, and its similarity with itself is \<open>NaN\<close>.
\<close>

theorem cosine_similarity_infinite_counterexample:
  "length [PosInf] = length [PosInf] \<and> vectorMagnitude [PosInf] = PosInf \<and>
   cosineSimilarity [PosInf] [PosInf] = NaN"
  by (simp add: cosineSimilarity_def vectorMagnitude_def dotProduct_def num_add_def num_mul_def
      num_div_def Let_def)

section \<open>Relevance score\<close>

lemma splitWs_nonempty: "splitWs s \<noteq> []"
  by (induction s rule: splitWs.induct) (auto split: list.splits)

lemma titleScore_bounds: "0 \<le> titleScore q t \<and> titleScore q t \<le> 1"
proof -
  let ?qw = "splitWs (toLowerCase q)"
  let ?m = "filter (\<lambda>word. list_ex (\<lambda>titleWord. includes_str titleWord word)
                     (splitWs (toLowerCase t))) ?qw"
  have pos: "0 < real (length ?qw)"
    using splitWs_nonempty[of "toLowerCase q"] by simp
  have le: "real (length ?m) \<le> real (length ?qw)"
    by simp
  have "real (length ?m) / real (length ?qw) \<le> 1"
    using pos le by (simp add: divide_le_eq_1)
  then show ?thesis
    by (simp add: titleScore_def Let_def)
qed

lemma recencyScore_fin:
  "recencyScore now (Fin d) = Fin (max 0 (1 - (now - d) / (1000 * 60 * 60 * 24) / 30))"
  by (simp add: recencyScore_def Let_def)

lemma calculateRelevanceScore_fin:
  assumes "pubDate (meta chunk) = Fin d"
  shows "calculateRelevanceScore now chunk query (Fin sim) =
     Fin (min (sim * 0.7 + max 0 (1 - (now - d) / (1000 * 60 * 60 * 24) / 30) * 0.2
               + titleScore query (title (meta chunk)) * 0.1) 1)"
  using assms by (simp add: calculateRelevanceScore_def recencyScore_fin Let_def)

lemma titleScore_ai_weather: "titleScore ''ai'' ''weather'' = 0"
  by (simp add: titleScore_def toLowerCase_def lowerChar_def isUpper_def isSpace_def Let_def)

lemma titleScore_ai_news: "titleScore ''ai'' ''ai news'' = 1"
  by (simp add: titleScore_def toLowerCase_def lowerChar_def isUpper_def isSpace_def Let_def)

lemma titleScore_ai_today: "titleScore ''ai'' ''ai today'' = 1"
  by (simp add: titleScore_def toLowerCase_def lowerChar_def isUpper_def isSpace_def Let_def)

lemma calculateRelevanceScore_infinite:
  assumes "pubDate (meta chunk) = Fin d"
  shows "calculateRelevanceScore now chunk query PosInf = Fin 1"
    and "calculateRelevanceScore now chunk query NegInf = NegInf"
  using assms
  by (simp_all add: calculateRelevanceScore_def recencyScore_fin num_mul_def num_add_def
      num_min_def num_less_def Let_def)

text \<open>
  Claim C1. For a chunk whose publish date parses and a similarity that is not \<open>NaN\<close>,
  the relevance score is at most 1, and it is at least 0 when the similarity is at least
  0. For a finite similarity the score is a finite number.
\<close>

theorem calculateRelevanceScore_bounds:
  assumes "pubDate (meta chunk) = Fin d" and "sim \<noteq> NaN"
  shows "num_le (calculateRelevanceScore now chunk query sim) (Fin 1) \<and>
         (num_le (Fin 0) sim \<longrightarrow> num_le (Fin 0) (calculateRelevanceScore now chunk query sim)) \<and>
         (is_fin sim \<longrightarrow> is_fin (calculateRelevanceScore now chunk query sim))"
proof (cases sim)
  case (Fin s)
  let ?rec = "max 0 (1 - (now - d) / (1000 * 60 * 60 * 24) / 30)"
  let ?r = "min (s * 0.7 + ?rec * 0.2 + titleScore query (title (meta chunk)) * 0.1) 1"
  have a: "0 \<le> ?rec * 0.2"
    by simp
  have b: "0 \<le> titleScore query (title (meta chunk)) * 0.1"
    using titleScore_bounds by simp
  have "?r \<le> 1 \<and> (0 \<le> s \<longrightarrow> 0 \<le> ?r)"
    using a b by auto
  then show ?thesis
    unfolding Fin calculateRelevanceScore_fin[OF assms(1)] by simp
next
  case PosInf
  show ?thesis
    unfolding PosInf calculateRelevanceScore_infinite[OF assms(1)] by simp
next
  case NegInf
  show ?thesis
    unfolding NegInf calculateRelevanceScore_infinite[OF assms(1)]
    by (simp add: num_le_def num_less_def)
next
  case NaN
  then show ?thesis
    using assms(2) by simp
qed

theorem calculateRelevanceScore_bounds_witness:
  "pubDate (meta chunkB) = Fin 0 \<and> Fin (5 / 13) \<noteq> NaN \<and>
   num_le (Fin 0) (Fin (5 / 13)) \<and> is_fin (Fin (5 / 13)) \<and>
   num_le (calculateRelevanceScore day100 chunkB ''ai'' (Fin (5 / 13))) (Fin 1) \<and>
   num_le (Fin 0) (calculateRelevanceScore day100 chunkB ''ai'' (Fin (5 / 13))) \<and>
   is_fin (calculateRelevanceScore day100 chunkB ''ai'' (Fin (5 / 13)))"
proof -
  have p: "pubDate (meta chunkB) = Fin 0"
    by (simp add: chunkB_def)
  have n: "Fin (5 / 13) \<noteq> NaN" "num_le (Fin 0) (Fin (5 / 13))" "is_fin (Fin (5 / 13))"
    by simp_all
  from calculateRelevanceScore_bounds[OF p n(1), of day100 "''ai''"] n(2,3) have
    a: "num_le (calculateRelevanceScore day100 chunkB ''ai'' (Fin (5 / 13))) (Fin 1)"
    and b: "num_le (Fin 0) (calculateRelevanceScore day100 chunkB ''ai'' (Fin (5 / 13)))"
    and c: "is_fin (calculateRelevanceScore day100 chunkB ''ai'' (Fin (5 / 13)))"
    by blast+
  show ?thesis
    by (intro conjI p n a b c)
qed

text \<open>
  Claim C1 as it is worded fails: the similarity of two opposite vectors is -1, and with
  it the score of a chunk a hundred days old whose title shares no word with the query is
  -0.7.
\<close>

theorem relevance_negative_counterexample:
  "calculateRelevanceScore day100 chunkB ''ai'' (cosineSimilarity [Fin 1, Fin 0] [Fin (- 1), Fin 0])
     = Fin (- (7 / 10))"
proof -
  have c: "cosineSimilarity [Fin 1, Fin 0] [Fin (- 1), Fin 0] = Fin (- 1)"
    by (simp add: cosineSimilarity_def vectorMagnitude_def dotProduct_def Let_def)
  have p: "pubDate (meta chunkB) = Fin 0"
    by (simp add: chunkB_def)
  show ?thesis
    unfolding c calculateRelevanceScore_fin[OF p]
    by (simp add: chunkB_def titleScore_ai_weather day100_def)
qed

section \<open>Search\<close>

lemma comesAfter_fin:
  "is_fin (relevanceScore a) \<Longrightarrow> is_fin (relevanceScore b) \<Longrightarrow>
   comesAfter a b \<longleftrightarrow> the_fin (relevanceScore a) < the_fin (relevanceScore b)"
  by (auto simp: comesAfter_def is_fin_conv)

lemma insertByRelevance_insort:
  "is_fin (relevanceScore a) \<Longrightarrow> list_all (\<lambda>r. is_fin (relevanceScore r)) bs \<Longrightarrow>
   insertByRelevance a bs = insort_key (\<lambda>r. - the_fin (relevanceScore r)) a bs"
  by (induction bs) (auto simp: comesAfter_fin)

lemma sortByRelevance_sort_key:
  "list_all (\<lambda>r. is_fin (relevanceScore r)) rs \<Longrightarrow>
   sortByRelevance rs = sort_key (\<lambda>r. - the_fin (relevanceScore r)) rs"
proof (induction rs)
  case Nil
  then show ?case by (simp add: sortByRelevance_def)
next
  case (Cons a rs)
  then have ih: "sortByRelevance rs = sort_key (\<lambda>r. - the_fin (relevanceScore r)) rs"
    by simp
  have all: "list_all (\<lambda>r. is_fin (relevanceScore r)) (sort_key (\<lambda>r. - the_fin (relevanceScore r)) rs)"
    using Cons.prems by (simp add: list_all_iff)
  have "sortByRelevance (a # rs) = insertByRelevance a (sortByRelevance rs)"
    by (simp add: sortByRelevance_def)
  also have "\<dots> = insort_key (\<lambda>r. - the_fin (relevanceScore r)) a
                     (sort_key (\<lambda>r. - the_fin (relevanceScore r)) rs)"
    unfolding ih using Cons.prems all by (simp add: insertByRelevance_insort)
  finally show ?case by (simp add: sort_key_def)
qed

lemma searchSimilarChunks_eq:
  "searchSimilarChunks now chunks qe q k =
     filter (\<lambda>r. num_less (Fin 0.1) (similarity r))
       (take k (sortByRelevance (map (scoreChunk now qe q) chunks)))"
  by (cases chunks) (simp_all add: searchSimilarChunks_def sortByRelevance_def Let_def)

lemma scored_finite:
  "finite_relevance now qe q chunks \<Longrightarrow>
   list_all (\<lambda>r. is_fin (relevanceScore r)) (map (scoreChunk now qe q) chunks)"
  by (simp add: finite_relevance_def list_all_iff)

lemma outranked_count:
  assumes srt: "sorted (map f S)"
    and x: "x \<in> set (drop k S)"
  shows "k < length (filter (\<lambda>y. f y \<le> (f x :: real)) S)"
proof -
  have S: "S = take k S @ drop k S"
    by simp
  have klen: "k < length S"
    using x by (cases "k < length S") auto
  have "sorted (map f (take k S @ drop k S))"
    using srt by simp
  then have all: "\<forall>y \<in> set (take k S). f y \<le> f x"
    using x unfolding map_append sorted_append by auto
  have t: "filter (\<lambda>y. f y \<le> f x) (take k S) = take k S"
    using all by (simp add: filter_id_conv)
  have d: "0 < length (filter (\<lambda>y. f y \<le> f x) (drop k S))"
    using x by (simp add: filter_empty_conv) (use order_refl in blast)
  have "length (filter (\<lambda>y. f y \<le> f x) S) =
        length (filter (\<lambda>y. f y \<le> f x) (take k S)) +
        length (filter (\<lambda>y. f y \<le> f x) (drop k S))"
    by (subst S, subst filter_append) simp
  then show ?thesis
    using t d klen by simp
qed

text \<open>
  Claim C2. When every chunk of the corpus gets a relevance that is a finite number, the
  search is: score every chunk, sort the scored chunks by descending relevance with the
  stable sort, keep the first \<open>k\<close> of them, and then drop those whose similarity is not
  above 0.1. So a chunk with similarity above 0.1 that the result leaves out has more
  than \<open>k\<close> scored chunks, itself among them, with a relevance at least its own, whether
  their similarity is above 0.1 or not.
\<close>

theorem search_cuts_before_filtering:
  assumes fin: "finite_relevance now qe q chunks"
  shows "searchSimilarChunks now chunks qe q k =
           filter (\<lambda>r. num_less (Fin 0.1) (similarity r))
             (take k (sort_key (\<lambda>r. - the_fin (relevanceScore r))
                        (map (scoreChunk now qe q) chunks))) \<and>
         (c \<in> set chunks \<and>
          num_less (Fin 0.1) (similarity (scoreChunk now qe q c)) \<and>
          scoreChunk now qe q c \<notin> set (searchSimilarChunks now chunks qe q k) \<longrightarrow>
            k < length (filter (\<lambda>y. num_le (relevanceScore (scoreChunk now qe q c))
                                       (relevanceScore y))
                         (map (scoreChunk now qe q) chunks)))"
proof -
  let ?R = "map (scoreChunk now qe q) chunks"
  let ?key = "\<lambda>r. - the_fin (relevanceScore r)"
  let ?S = "sort_key ?key ?R"
  let ?x = "scoreChunk now qe q c"
  have allR: "list_all (\<lambda>r. is_fin (relevanceScore r)) ?R"
    by (rule scored_finite[OF fin])
  have eq: "searchSimilarChunks now chunks qe q k =
              filter (\<lambda>r. num_less (Fin 0.1) (similarity r)) (take k ?S)"
    by (simp add: searchSimilarChunks_eq sortByRelevance_sort_key[OF allR])
  have omit: "k < length (filter (\<lambda>y. num_le (relevanceScore ?x) (relevanceScore y)) ?R)"
    if c: "c \<in> set chunks" and sim: "num_less (Fin 0.1) (similarity ?x)"
      and out: "?x \<notin> set (searchSimilarChunks now chunks qe q k)"
  proof -
    have xS: "?x \<in> set ?S"
      using c by simp
    have "?x \<notin> set (take k ?S)"
      using out sim unfolding eq by simp
    then have "?x \<in> set (drop k ?S)"
      using xS by (metis Un_iff append_take_drop_id set_append)
    then have "k < length (filter (\<lambda>y. ?key y \<le> ?key ?x) ?S)"
      by (rule outranked_count[OF sorted_sort_key])
    also have "length (filter (\<lambda>y. ?key y \<le> ?key ?x) ?S) =
               length (filter (\<lambda>y. ?key y \<le> ?key ?x) ?R)"
      by (simp add: filter_sort)
    also have "filter (\<lambda>y. ?key y \<le> ?key ?x) ?R =
               filter (\<lambda>y. num_le (relevanceScore ?x) (relevanceScore y)) ?R"
    proof (rule filter_cong[OF refl])
      fix y assume "y \<in> set ?R"
      then have fy: "is_fin (relevanceScore y)"
        using allR by (auto simp: list_all_iff)
      have fx: "is_fin (relevanceScore ?x)"
        using allR c by (auto simp: list_all_iff)
      show "(?key y \<le> ?key ?x) = num_le (relevanceScore ?x) (relevanceScore y)"
        using fx fy by (auto simp: is_fin_conv)
    qed
    finally show ?thesis .
  qed
  show ?thesis
    using eq omit by blast
qed

lemma similarity_chunkA: "cosineSimilarity [Fin 1, Fin 0] (embedding chunkA) = Fin 0"
  by (simp add: cosineSimilarity_def chunkA_def dotProduct_def vectorMagnitude_def Let_def)

lemma similarity_chunkB: "cosineSimilarity [Fin 1, Fin 0] (embedding chunkB) = Fin (5 / 13)"
  by (simp add: cosineSimilarity_def chunkB_def dotProduct_def vectorMagnitude_def sqrt169
      Let_def)

lemma similarity_chunkC: "cosineSimilarity [Fin 1, Fin 0] (embedding chunkC) = Fin (3 / 5)"
  by (simp add: cosineSimilarity_def chunkC_def dotProduct_def vectorMagnitude_def sqrt25
      Let_def)

lemma similarity_chunkX: "cosineSimilarity [Fin 1, Fin 0] (embedding chunkX) = Fin 1"
  by (simp add: cosineSimilarity_def chunkX_def dotProduct_def vectorMagnitude_def Let_def)

lemma relevance_chunkA: "calculateRelevanceScore day100 chunkA ''ai'' (Fin 0) = Fin (3 / 10)"
proof -
  have p: "pubDate (meta chunkA) = Fin day100" by (simp add: chunkA_def)
  show ?thesis
    unfolding calculateRelevanceScore_fin[OF p] by (simp add: chunkA_def titleScore_ai_news)
qed

lemma relevance_chunkB:
  "calculateRelevanceScore day100 chunkB ''ai'' (Fin (5 / 13)) = Fin (7 / 26)"
proof -
  have p: "pubDate (meta chunkB) = Fin 0" by (simp add: chunkB_def)
  show ?thesis
    unfolding calculateRelevanceScore_fin[OF p]
    by (simp add: chunkB_def titleScore_ai_weather day100_def)
qed

lemma relevance_chunkC:
  "calculateRelevanceScore day100 chunkC ''ai'' (Fin (3 / 5)) = Fin (18 / 25)"
proof -
  have p: "pubDate (meta chunkC) = Fin day100" by (simp add: chunkC_def)
  show ?thesis
    unfolding calculateRelevanceScore_fin[OF p] by (simp add: chunkC_def titleScore_ai_today)
qed

lemma relevance_chunkX: "calculateRelevanceScore day100 chunkX ''ai'' (Fin 1) = NaN"
  by (simp add: calculateRelevanceScore_def recencyScore_def chunkX_def num_add_def num_sub_def
      num_mul_def num_div_def num_max_def num_min_def Let_def)

lemma scoreChunk_chunkA:
  "scoreChunk day100 [Fin 1, Fin 0] ''ai'' chunkA =
     EmbeddedChunk.extend chunkA (SearchResult.fields (Fin 0) (Fin (3 / 10)))"
  by (simp add: scoreChunk_def similarity_chunkA relevance_chunkA Let_def)

lemma scoreChunk_chunkB:
  "scoreChunk day100 [Fin 1, Fin 0] ''ai'' chunkB =
     EmbeddedChunk.extend chunkB (SearchResult.fields (Fin (5 / 13)) (Fin (7 / 26)))"
  by (simp add: scoreChunk_def similarity_chunkB relevance_chunkB Let_def)

lemma scoreChunk_chunkC:
  "scoreChunk day100 [Fin 1, Fin 0] ''ai'' chunkC =
     EmbeddedChunk.extend chunkC (SearchResult.fields (Fin (3 / 5)) (Fin (18 / 25)))"
  by (simp add: scoreChunk_def similarity_chunkC relevance_chunkC Let_def)

lemma scoreChunk_chunkX:
  "scoreChunk day100 [Fin 1, Fin 0] ''ai'' chunkX =
     EmbeddedChunk.extend chunkX (SearchResult.fields (Fin 1) NaN)"
  by (simp add: scoreChunk_def similarity_chunkX relevance_chunkX Let_def)

lemma extend_sel:
  "similarity (EmbeddedChunk.extend c (SearchResult.fields s r)) = s"
  "relevanceScore (EmbeddedChunk.extend c (SearchResult.fields s r)) = r"
  by (simp_all add: EmbeddedChunk.defs SearchResult.defs)

lemma sample_search_cut:
  "searchSimilarChunks day100 [chunkA, chunkB] [Fin 1, Fin 0] ''ai'' 1 = []"
  by (simp add: searchSimilarChunks_def sortByRelevance_def comesAfter_def scoreChunk_chunkA
      scoreChunk_chunkB extend_sel Let_def)

theorem search_cuts_before_filtering_witness:
  "finite_relevance day100 [Fin 1, Fin 0] ''ai'' [chunkA, chunkB] \<and>
   chunkB \<in> set [chunkA, chunkB] \<and>
   num_less (Fin 0.1) (similarity (scoreChunk day100 [Fin 1, Fin 0] ''ai'' chunkB)) \<and>
   scoreChunk day100 [Fin 1, Fin 0] ''ai'' chunkB
     \<notin> set (searchSimilarChunks day100 [chunkA, chunkB] [Fin 1, Fin 0] ''ai'' 1) \<and>
   1 < length (filter (\<lambda>y. num_le (relevanceScore (scoreChunk day100 [Fin 1, Fin 0] ''ai'' chunkB))
                             (relevanceScore y))
                (map (scoreChunk day100 [Fin 1, Fin 0] ''ai'') [chunkA, chunkB]))"
proof -
  have 0: "finite_relevance day100 [Fin 1, Fin 0] ''ai'' [chunkA, chunkB]"
    by (simp add: finite_relevance_def scoreChunk_chunkA scoreChunk_chunkB extend_sel)
  have 1: "chunkB \<in> set [chunkA, chunkB]"
    by simp
  have 2: "num_less (Fin 0.1) (similarity (scoreChunk day100 [Fin 1, Fin 0] ''ai'' chunkB))"
    by (simp add: scoreChunk_chunkB extend_sel)
  have 3: "scoreChunk day100 [Fin 1, Fin 0] ''ai'' chunkB
             \<notin> set (searchSimilarChunks day100 [chunkA, chunkB] [Fin 1, Fin 0] ''ai'' 1)"
    unfolding sample_search_cut by simp
  from search_cuts_before_filtering[OF 0, of 1 chunkB] 1 2 3 have
    "1 < length (filter (\<lambda>y. num_le (relevanceScore (scoreChunk day100 [Fin 1, Fin 0] ''ai'' chunkB))
                             (relevanceScore y))
                (map (scoreChunk day100 [Fin 1, Fin 0] ''ai'') [chunkA, chunkB]))"
    by blast
  with 0 1 2 3 show ?thesis
    by blast
qed

text \<open>
  Claim C2 as it is worded fails: with \<open>k = 1\<close>, a fresh chunk of similarity 0 whose
  title carries the query word ranks first and is then dropped, and the search returns
  nothing, where filtering before the cut returns the chunk of similarity 5/13.
\<close>

theorem search_filter_after_slice_counterexample:
  "searchSimilarChunks day100 [chunkA, chunkB] [Fin 1, Fin 0] ''ai'' 1 = [] \<and>
   search_as_specified day100 [chunkA, chunkB] [Fin 1, Fin 0] ''ai'' 1 =
     [scoreChunk day100 [Fin 1, Fin 0] ''ai'' chunkB]"
  unfolding sample_search_cut
  by (simp add: search_as_specified_def sortByRelevance_def comesAfter_def
      scoreChunk_chunkA scoreChunk_chunkB extend_sel Let_def)

text \<open>
  The shape of a result: at most \<open>k\<close> entries, each of similarity above 0.1, none from
  an empty corpus, and in descending order of relevance when every relevance is a finite
  number.
\<close>

lemma search_results_shape:
  "length (searchSimilarChunks now chunks qe q k) \<le> k \<and>
   list_all (\<lambda>r. num_less (Fin 0.1) (similarity r)) (searchSimilarChunks now chunks qe q k) \<and>
   searchSimilarChunks now [] qe q k = [] \<and>
   (finite_relevance now qe q chunks \<longrightarrow>
      sorted_wrt (\<lambda>a b. num_le (relevanceScore b) (relevanceScore a))
        (searchSimilarChunks now chunks qe q k))"
proof -
  let ?R = "map (scoreChunk now qe q) chunks"
  let ?key = "\<lambda>r. - the_fin (relevanceScore r)"
  have len: "length (filter (\<lambda>r. num_less (Fin 0.1) (similarity r)) (take k (sortByRelevance ?R))) \<le> k"
    by (rule order_trans[OF length_filter_le]) simp
  have emp: "searchSimilarChunks now [] qe q k = []"
    by (simp add: searchSimilarChunks_def)
  have srt: "sorted_wrt (\<lambda>a b. num_le (relevanceScore b) (relevanceScore a))
      (searchSimilarChunks now chunks qe q k)" if fin: "finite_relevance now qe q chunks"
  proof -
    have allR: "list_all (\<lambda>r. is_fin (relevanceScore r)) ?R"
      by (rule scored_finite[OF fin])
    have "sorted (map ?key (sort_key ?key ?R))"
      by (rule sorted_sort_key)
    then have s1: "sorted_wrt (\<lambda>a b. ?key a \<le> ?key b) (sort_key ?key ?R)"
      by (simp add: sorted_map)
    have s2: "sorted_wrt (\<lambda>a b. num_le (relevanceScore b) (relevanceScore a)) (sort_key ?key ?R)"
    proof (rule sorted_wrt_mono_rel[OF _ s1])
      fix a b assume "a \<in> set (sort_key ?key ?R)" "b \<in> set (sort_key ?key ?R)" "?key a \<le> ?key b"
      moreover have "is_fin (relevanceScore a)" "is_fin (relevanceScore b)"
        using allR calculation(1,2) by (auto simp: list_all_iff)
      ultimately show "num_le (relevanceScore b) (relevanceScore a)"
        by (auto simp: is_fin_conv)
    qed
    show ?thesis
      unfolding searchSimilarChunks_eq sortByRelevance_sort_key[OF allR]
      by (intro sorted_wrt_filter sorted_wrt_take s2)
  qed
  show ?thesis
    unfolding searchSimilarChunks_eq[of now chunks]
    using len emp srt by (simp add: list_all_iff searchSimilarChunks_eq)
qed

text \<open>
  Claim C3 fails on this input: a corpus of two chunks, the second with a date string
  that does not parse, searched with \<open>k = 2\<close>. The relevance of the second chunk is
  \<open>NaN\<close>, both chunks are returned, and the result is not in descending order of
  relevance.
\<close>

theorem search_unsorted_with_unparsable_date:
  "searchSimilarChunks day100 [chunkB, chunkX] [Fin 1, Fin 0] ''ai'' 2 =
     [scoreChunk day100 [Fin 1, Fin 0] ''ai'' chunkB,
      scoreChunk day100 [Fin 1, Fin 0] ''ai'' chunkX] \<and>
   relevanceScore (scoreChunk day100 [Fin 1, Fin 0] ''ai'' chunkB) = Fin (7 / 26) \<and>
   relevanceScore (scoreChunk day100 [Fin 1, Fin 0] ''ai'' chunkX) = NaN \<and>
   \<not> sorted_wrt (\<lambda>a b. num_le (relevanceScore b) (relevanceScore a))
       (searchSimilarChunks day100 [chunkB, chunkX] [Fin 1, Fin 0] ''ai'' 2)"
  by (simp add: searchSimilarChunks_def sortByRelevance_def comesAfter_def scoreChunk_chunkB
      scoreChunk_chunkX extend_sel num_sub_def num_add_def num_less_def num_le_def Let_def)

section \<open>Session log\<close>

lemma list_range_last50: "length (list_range xs (- 50) (- 1)) \<le> 50"
  by (auto simp: list_range_def Let_def)

lemma getRedisClient_available:
  assumes "client_available env net m"
  shows "\<exists>c m' db'. getRedisClient env net (m, db) = (Some c, m', db') \<and>
           client_available env net m' \<and> lists db' = lists db"
proof (cases "redisClient m")
  case (Some c)
  then show ?thesis
    using assms by (auto simp: getRedisClient_def client_available_def Let_def)
next
  case None
  then show ?thesis
    using assms
    by (auto simp: getRedisClient_def client_available_def Let_def log_line_def redis_set_def)
qed

lemma addMessageToSession_up:
  assumes up: "backend_up env net m"
  shows "backend_up env net (fst (addMessageToSession env net (m, db) sid msg)) \<and>
         length (lists (snd (addMessageToSession env net (m, db) sid msg)) (historyKey sid))
           \<le> 50"
proof -
  have av: "client_available env net m"
    using up by (simp add: backend_up_def)
  from getRedisClient_available[OF av, of db] obtain c m' db' where
    g: "getRedisClient env net (m, db) = (Some c, m', db')" and
    av': "client_available env net m'" and l: "lists db' = lists db"
    by blast
  have n: "net RPUSH = None" "net EXPIRE = None" "net LTRIM = None"
    using up by (simp_all add: backend_up_def)
  have r: "addMessageToSession env net (m, db) sid msg =
     (m', redis_ltrim
            (redis_expire (redis_rpush db' (historyKey sid) msg) (historyKey sid)
               (24 * 60 * 60))
            (historyKey sid) (- 50) (- 1))"
    by (simp add: addMessageToSession_def g n pushJson_def Let_def)
  show ?thesis
    unfolding r using av' n by (simp add: backend_up_def redis_ltrim_def list_range_last50)
qed

lemma appendAll_up:
  "backend_up env net m \<Longrightarrow> messages \<noteq> [] \<Longrightarrow>
     backend_up env net (fst (appendAll env net (m, db) sessionId messages)) \<and>
     length (lists (snd (appendAll env net (m, db) sessionId messages))
               (historyKey sessionId)) \<le> 50"
proof (induction messages rule: rev_induct)
  case Nil
  then show ?case
    by simp
next
  case (snoc msg ms)
  show ?case
  proof (cases "ms = []")
    case True
    then show ?thesis
      using addMessageToSession_up[OF snoc.prems(1)] by (simp add: appendAll_def)
  next
    case False
    obtain m1 db1 where w: "appendAll env net (m, db) sessionId ms = (m1, db1)"
      by (cases "appendAll env net (m, db) sessionId ms")
    have up1: "backend_up env net m1"
      using snoc.IH[OF snoc.prems(1) False] w by simp
    have "appendAll env net (m, db) sessionId (ms @ [msg]) =
          addMessageToSession env net (m1, db1) sessionId msg"
      using w by (simp add: appendAll_def)
    then show ?thesis
      using addMessageToSession_up[OF up1] by simp
  qed
qed

lemma addMessageToSession_untrimmed:
  assumes av: "client_available env net m"
    and push: "net RPUSH = None"
    and fails: "net EXPIRE \<noteq> None \<or> net LTRIM \<noteq> None"
  shows "lists (snd (addMessageToSession env net (m, db) sid msg)) (historyKey sid) =
         lists db (historyKey sid) @ [msg]"
proof -
  from getRedisClient_available[OF av, of db] obtain c m' db' where
    g: "getRedisClient env net (m, db) = (Some c, m', db')" and l: "lists db' = lists db"
    by blast
  show ?thesis
    using fails push l
    by (auto simp: addMessageToSession_def g pushJson_def redis_rpush_def redis_expire_def
        Let_def split: option.splits)
qed

text \<open>
  Claim C5. Whatever the log holds before, and however long it is, after one or more
  appends in each of which the client is available and RPUSH, EXPIRE and LTRIM succeed,
  the log of the session holds at most 50 entries. An append in which the client is
  available and RPUSH succeeds but EXPIRE or LTRIM throws returns with the message
  pushed and the log not trimmed.
\<close>

theorem session_log_capped:
  "(backend_up env net m \<and> messages \<noteq> [] \<longrightarrow>
      length (lists (snd (appendAll env net (m, db) sessionId messages))
                (historyKey sessionId)) \<le> 50) \<and>
   (client_available env net m \<and> net RPUSH = None \<and>
    (net EXPIRE \<noteq> None \<or> net LTRIM \<noteq> None) \<longrightarrow>
      lists (snd (addMessageToSession env net (m, db) sessionId message))
        (historyKey sessionId) =
      lists db (historyKey sessionId) @ [message])"
  using appendAll_up[of env net m messages db sessionId]
    addMessageToSession_untrimmed[of env net m db sessionId message]
  by blast

lemma client_available_ok: "client_available env_ok net (redis_module_init env_ok) \<longleftrightarrow>
    net NEW = None \<and> net SET = None"
  by (simp add: client_available_def env_ok_def redis_module_init_def)

theorem session_log_capped_witness:
  "backend_up env_ok net_ok (redis_module_init env_ok) \<and>
   [good_item] \<noteq> [] \<and>
   length (lists (log_of 60) (historyKey ''s1'')) = 60 \<and>
   length (lists (snd (appendAll env_ok net_ok (redis_module_init env_ok, log_of 60) ''s1''
                         [good_item])) (historyKey ''s1'')) \<le> 50 \<and>
   client_available env_ok net_expire_fails (redis_module_init env_ok) \<and>
   net_expire_fails RPUSH = None \<and> net_expire_fails EXPIRE \<noteq> None \<and>
   lists (snd (addMessageToSession env_ok net_expire_fails
                 (redis_module_init env_ok, log_of 50) ''s1'' good_item)) (historyKey ''s1'') =
     lists (log_of 50) (historyKey ''s1'') @ [good_item]"
proof -
  have 1: "backend_up env_ok net_ok (redis_module_init env_ok)"
    by (simp add: backend_up_def client_available_ok net_ok_def)
  have 2: "[good_item] \<noteq> []"
    by simp
  have 3: "length (lists (log_of 60) (historyKey ''s1'')) = 60"
    by (simp add: log_of_def)
  have 4: "client_available env_ok net_expire_fails (redis_module_init env_ok)"
    by (simp add: client_available_ok net_expire_fails_def net_ok_def)
  have 5: "net_expire_fails RPUSH = None" "net_expire_fails EXPIRE \<noteq> None"
    by (simp_all add: net_expire_fails_def net_ok_def)
  from session_log_capped[of env_ok net_ok "redis_module_init env_ok" "[good_item]"
      "log_of 60" "''s1''"] 1 2
  have a: "length (lists (snd (appendAll env_ok net_ok (redis_module_init env_ok, log_of 60)
                ''s1'' [good_item])) (historyKey ''s1'')) \<le> 50"
    by blast
  from session_log_capped[of env_ok net_expire_fails "redis_module_init env_ok" _
      "log_of 50" "''s1''" good_item] 4 5
  have b: "lists (snd (addMessageToSession env_ok net_expire_fails
                 (redis_module_init env_ok, log_of 50) ''s1'' good_item)) (historyKey ''s1'') =
     lists (log_of 50) (historyKey ''s1'') @ [good_item]"
    by blast
  show ?thesis
    by (intro conjI 1 2 3 a 4 5 b)
qed

text \<open>
  Claim C5 as it is worded fails: on a log of 50 entries, an append whose EXPIRE times
  out returns as every append does, and the log then holds 51 entries.
\<close>

theorem session_log_untrimmed_counterexample:
  "length (lists (log_of 50) (historyKey ''s1'')) = 50 \<and>
   length (lists (snd (addMessageToSession env_ok net_expire_fails
                         (redis_module_init env_ok, log_of 50) ''s1'' good_item))
             (historyKey ''s1'')) = 51"
proof -
  have av: "client_available env_ok net_expire_fails (redis_module_init env_ok)"
    by (simp add: client_available_ok net_expire_fails_def net_ok_def)
  have n: "net_expire_fails RPUSH = None" "net_expire_fails EXPIRE \<noteq> None \<or> net_expire_fails LTRIM \<noteq> None"
    by (simp_all add: net_expire_fails_def net_ok_def)
  show ?thesis
    unfolding addMessageToSession_untrimmed[OF av n] by (simp add: log_of_def)
qed

section \<open>Fallback embedding\<close>

text \<open>
  The normalisation divides by the magnitude without a test: the vector it returns has
  the length of its argument, is made of finite numbers and has magnitude 1 when the
  magnitude of the argument is not 0, and is made of \<open>NaN\<close> when it is 0. The vector
  before normalisation has 768 components, and for the empty text its magnitude is not 0.
\<close>

lemma sumsq_foldl: "foldl (\<lambda>sum a. sum + a * a) s v = s + sum_list (map (\<lambda>a. a * a) v)"
  for s :: real
  by (induction v arbitrary: s) simp_all

lemma magnitude_sum_list: "magnitude v = sqrt (sum_list (map (\<lambda>a. a * a) v))"
  by (simp add: magnitude_def sumsq_foldl)

lemma magnitude_zero_iff: "magnitude v = 0 \<longleftrightarrow> (\<forall>a \<in> set v. a = 0)"
  by (simp add: magnitude_sum_list sumsq_zero_iff)

lemma sumsq_scaled:
  "sum_list (map (\<lambda>a. a * a) (map (\<lambda>a. a / m) v)) = sum_list (map (\<lambda>a. a * a) v) / (m * m)"
  for v :: "real list"
  by (induction v) (simp_all add: add_divide_distrib)

lemma normalize_length: "length (normalizeEmbedding v) = length v"
  by (simp add: normalizeEmbedding_def Let_def)

lemma normalize_nonzero:
  assumes "magnitude v \<noteq> 0"
  shows "normalizeEmbedding v = map (\<lambda>a. Fin (a / magnitude v)) v"
  using assms by (simp add: normalizeEmbedding_def Let_def js_div_def)

lemma normalize_unit:
  assumes nz: "magnitude v \<noteq> 0"
  shows "list_all is_fin (normalizeEmbedding v) \<and>
         magnitude (map the_fin (normalizeEmbedding v)) = 1"
proof -
  let ?q = "sum_list (map (\<lambda>a. a * a) v)"
  have q: "?q \<noteq> 0" using nz by (simp add: magnitude_sum_list)
  have mm: "magnitude v * magnitude v = ?q"
    by (simp add: magnitude_sum_list sumsq_nonneg)
  have m: "map the_fin (normalizeEmbedding v) = map (\<lambda>a. a / magnitude v) v"
    by (simp add: normalize_nonzero[OF nz] comp_def)
  have "magnitude (map (\<lambda>a. a / magnitude v) v) = sqrt (?q / (magnitude v * magnitude v))"
    by (simp only: magnitude_sum_list sumsq_scaled)
  also have "\<dots> = 1" using q by (simp add: mm)
  finally have u: "magnitude (map the_fin (normalizeEmbedding v)) = 1" by (simp add: m)
  have f: "list_all is_fin (normalizeEmbedding v)"
    by (simp add: normalize_nonzero[OF nz] list_all_iff)
  show ?thesis using u f by simp
qed

lemma normalize_zero:
  assumes z: "magnitude v = 0"
  shows "normalizeEmbedding v = replicate (length v) NaN"
proof -
  have all: "\<forall>a \<in> set v. a = 0" using z by (simp add: magnitude_zero_iff)
  have "map (\<lambda>val. js_div val 0) v = replicate (length v) NaN"
    using all by (induction v) (simp_all add: js_div_def)
  then show ?thesis using z by (simp add: normalizeEmbedding_def Let_def)
qed

lemma foldl_update_length:
  "length (foldl (\<lambda>e i. e[f i := g e i]) emb is) = length emb"
  by (induction "is" arbitrary: emb) simp_all

lemma addWord_length: "length (addWord emb wi) = length emb"
  by (simp add: addWord_def Let_def foldl_update_length)

lemma addWords_length: "length (foldl addWord emb wis) = length emb"
  by (induction wis arbitrary: emb) (simp_all add: addWord_length)

lemma addFeatures_length: "length (addFeatures a b emb) = length emb"
proof -
  have "length (foldl (\<lambda>e i. (e[i := e ! i + a * 0.2])[i + 50 := (e[i := e ! i + a * 0.2]) ! (i + 50) + b * 0.2]) e is) = length e"
    for e :: "real list" and "is"
    by (induction "is" arbitrary: e) simp_all
  then show ?thesis by (simp add: addFeatures_def Let_def)
qed

lemma rawEmbedding_length: "length (rawEmbedding t) = 768"
  by (simp add: rawEmbedding_def Let_def addFeatures_length addWords_length)

lemma foldl_update_nth:
  "p < length emb \<Longrightarrow>
   foldl (\<lambda>e i. e[f i := e ! f i + g i]) emb is ! p =
     emb ! p + sum_list (map g (filter (\<lambda>i. f i = p) is))"
  for emb :: "real list"
proof (induction "is" arbitrary: emb)
  case Nil
  then show ?case by simp
next
  case (Cons i "is")
  have "p < length (emb[f i := emb ! f i + g i])" using Cons.prems by simp
  from Cons.IH[OF this] show ?case using Cons.prems
    by (simp add: nth_list_update)
qed

lemma filter_eq_upt: "k < n \<Longrightarrow> filter (\<lambda>i. i = k) [0..<n] = [k]"
proof (induction n)
  case 0 then show ?case by simp
next
  case (Suc n)
  show ?case
  proof (cases "k < n")
    case True
    with Suc.IH show ?thesis by simp
  next
    case False
    hence kn: "k = n" using Suc.prems by simp
    have "filter (\<lambda>i. i = n) [0..<n] = []" by (simp add: filter_empty_conv)
    with kn show ?thesis by simp
  qed
qed

lemma hashString_empty: "hashString [] = 0"
  by (simp add: hashString_def)

lemma addFeatures_zero: "addFeatures 0 0 emb = emb"
proof -
  have "foldl (\<lambda>e i. e) e is = e" for e :: "real list" and "is" :: "nat list"
    by (induction "is") simp_all
  then show ?thesis by (simp add: addFeatures_def Let_def)
qed

lemma rawEmbedding_empty_at_1: "rawEmbedding [] ! 1 = sin 1 * 0.1"
proof -
  have f: "filter (\<lambda>i. (0 + i + 0) mod 768 = Suc 0) [0..<768] = [Suc 0]"
  proof -
    have "filter (\<lambda>i. (0 + i + 0) mod 768 = Suc 0) [0..<768] = filter (\<lambda>i. i = Suc 0) [0..<768]"
      by (rule filter_cong) auto
    then show ?thesis by (simp add: filter_eq_upt)
  qed
  have "addWord (replicate 768 0) ([], 0) ! 1 =
        replicate 768 0 ! 1 + sum_list (map (\<lambda>i. sin (real (0 + i)) * 0.1) (filter (\<lambda>i. (0 + i + 0) mod 768 = 1) [0..<768]))"
    unfolding addWord_def Let_def fst_conv snd_conv hashString_empty
    by (rule foldl_update_nth) simp
  also have "\<dots> = sin 1 * 0.1" using f by simp
  finally have a: "addWord (replicate 768 0) ([], 0) ! 1 = sin 1 * 0.1" .
  have "rawEmbedding [] = addWord (replicate 768 0) ([], 0)"
    by (simp add: rawEmbedding_def toLowerCase_def Let_def addFeatures_zero)
  then show ?thesis using a by simp
qed

lemma magnitude_rawEmbedding_empty: "magnitude (rawEmbedding []) \<noteq> 0"
proof -
  have "sin (1::real) > 0" by (rule sin_gt_zero_02) simp_all
  then have nz: "rawEmbedding [] ! 1 \<noteq> 0" unfolding rawEmbedding_empty_at_1 by simp
  have "rawEmbedding [] ! 1 \<in> set (rawEmbedding [])"
    by (rule nth_mem) (simp add: rawEmbedding_length)
  then show ?thesis using nz by (auto simp: magnitude_zero_iff)
qed

lemma createDeterministicEmbedding_length: "length (createDeterministicEmbedding txt) = 768"
  by (simp add: createDeterministicEmbedding_def normalize_length rawEmbedding_length)

lemma createDeterministicEmbedding_unit:
  assumes "magnitude (rawEmbedding txt) \<noteq> 0"
  shows "list_all is_fin (createDeterministicEmbedding txt) \<and>
         magnitude (map the_fin (createDeterministicEmbedding txt)) = 1"
  using normalize_unit[OF assms] by (simp add: createDeterministicEmbedding_def)

section \<open>Batch embedding\<close>

lemma createBatchEmbeddings_fallback:
  assumes "\<not> truthy_str jinaApiKey \<or> response = FetchThrows \<or> response = NotOk status \<or>
           response = JsonThrows \<or> response = Body None"
  shows "createBatchEmbeddings jinaApiKey response texts = map createDeterministicEmbedding texts"
  using assms by (auto simp: createBatchEmbeddings_def)

text \<open>
  Claim C9 fails on this input: the API key is set, three texts are given, and the
  provider answers with a body whose list \<^verbatim>\<open>data\<close> is empty, or holds one item.
  \<open>createBatchEmbeddings\<close> returns what the body holds, no vector or one, where
  \<open>createEmbedding\<close> takes the empty list for a failed call and falls back.
\<close>

theorem batch_short_answer_returned:
  "createBatchEmbeddings (Some ''key'') (Body (Some [])) [''a'', ''b'', ''c''] = [] \<and>
   createBatchEmbeddings (Some ''key'') (Body (Some [[Fin 1, Fin 0]])) [''a'', ''b'', ''c''] =
     [[Fin 1, Fin 0]] \<and>
   snd (createEmbedding (Some ''key'') (Body (Some [])) Map.empty ''a'') =
     createDeterministicEmbedding ''a''"
  by (simp add: createBatchEmbeddings_def createEmbedding_def Let_def)

section \<open>Embedding cache\<close>

lemma base64_prefix:
  "take (4 * n + 2) (base64 bs) = take (4 * n + 2) (base64 (take (3 * n + 2) bs))"
proof (induction n arbitrary: bs)
  case 0
  show ?case
  proof (cases bs)
    case Nil then show ?thesis by simp
  next
    case (Cons a r1)
    show ?thesis
    proof (cases r1)
      case Nil with Cons show ?thesis by simp
    next
      case (Cons b r2)
      show ?thesis
      proof (cases r2)
        case Nil with \<open>bs = a # r1\<close> \<open>r1 = b # r2\<close> show ?thesis by simp
      next
        case (Cons c r3)
        with \<open>bs = a # r1\<close> \<open>r1 = b # r2\<close> show ?thesis by (simp add: numeral_2_eq_2)
      qed
    qed
  qed
next
  case (Suc n)
  show ?case
  proof (cases "length bs < 3")
    case True
    then have "take (3 * Suc n + 2) bs = bs" by simp
    then show ?thesis by simp
  next
    case False
    then obtain a b c rest where bs: "bs = a # b # c # rest"
      by (metis (no_types, opaque_lifting) One_nat_def Suc_1 length_Cons list.size(3) neq_Nil_conv not_less_eq numeral_3_eq_3 zero_less_Suc less_Suc_eq_0_disj)
    have e3: "3 * Suc n + 2 = Suc (Suc (Suc (3 * n + 2)))" by simp
    have t: "take (3 * Suc n + 2) bs = a # b # c # take (3 * n + 2) rest"
      unfolding e3 bs by simp
    have e: "4 * Suc n + 2 = Suc (Suc (Suc (Suc (4 * n + 2))))" by simp
    show ?thesis
      unfolding t unfolding bs e using Suc.IH[of rest] by simp
  qed
qed

lemma embeddingCacheKey_prefix:
  assumes "take 38 (utf8 t1) = take 38 (utf8 t2)"
  shows "embeddingCacheKey t1 = embeddingCacheKey t2"
proof -
  have "take 50 (base64 (utf8 t)) = take 50 (base64 (take 38 (utf8 t)))" for t
    using base64_prefix[of 12 "utf8 t"] by simp
  then show ?thesis using assms by (simp add: embeddingCacheKey_def)
qed

lemma question_prefix: "take 38 (utf8 question_a) = take 38 (utf8 question_b)"
  by (simp add: question_a_def question_b_def utf8_def)

lemma question_distinct: "question_a \<noteq> question_b"
  by (simp add: question_a_def question_b_def)

text \<open>
  Claim C10. The cache key of \<open>createEmbedding\<close> is not injective: it depends
  on the first 38 bytes of the text only (the first 50 characters of the base64 text). Two
  texts that agree there share the key, and once the provider's vector for the first is
  cached, a call for the second returns that vector, whatever the provider would answer.
\<close>

theorem embedding_cache_key_collides:
  "(\<exists>t1 t2. t1 \<noteq> t2 \<and> embeddingCacheKey t1 = embeddingCacheKey t2) \<and>
   (take 38 (utf8 t1) = take 38 (utf8 t2) \<longrightarrow>
      embeddingCacheKey t1 = embeddingCacheKey t2 \<and>
      (truthy_str jinaApiKey \<and> cache (embeddingCacheKey t1) = None \<longrightarrow>
         createEmbedding jinaApiKey (Body (Some (v # vs))) cache t1 =
           (cache(embeddingCacheKey t1 \<mapsto> v), v) \<and>
         createEmbedding jinaApiKey' response' (cache(embeddingCacheKey t1 \<mapsto> v)) t2 =
           (cache(embeddingCacheKey t1 \<mapsto> v), v)))"
proof -
  have ex: "\<exists>t1 t2. t1 \<noteq> t2 \<and> embeddingCacheKey t1 = embeddingCacheKey t2"
    using question_distinct embeddingCacheKey_prefix[OF question_prefix] by blast
  have gen: "embeddingCacheKey t1 = embeddingCacheKey t2 \<and>
      (truthy_str jinaApiKey \<and> cache (embeddingCacheKey t1) = None \<longrightarrow>
         createEmbedding jinaApiKey (Body (Some (v # vs))) cache t1 =
           (cache(embeddingCacheKey t1 \<mapsto> v), v) \<and>
         createEmbedding jinaApiKey' response' (cache(embeddingCacheKey t1 \<mapsto> v)) t2 =
           (cache(embeddingCacheKey t1 \<mapsto> v), v))"
    if p: "take 38 (utf8 t1) = take 38 (utf8 t2)"
  proof -
    have k: "embeddingCacheKey t1 = embeddingCacheKey t2"
      by (rule embeddingCacheKey_prefix[OF p])
    show ?thesis
      by (simp add: k createEmbedding_def Let_def)
  qed
  show ?thesis using ex gen by blast
qed

theorem embedding_cache_key_collides_witness:
  "question_a \<noteq> question_b \<and>
   take 38 (utf8 question_a) = take 38 (utf8 question_b) \<and>
   embeddingCacheKey question_a = embeddingCacheKey question_b \<and>
   embeddingCacheKey question_a =
     ''embedding:V2hhdCBpcyB0aGUgbGF0ZXN0IG5ld3MgYWJvdXQgYXJ0aWZpY2'' \<and>
   truthy_str (Some ''key'') \<and>
   createEmbedding (Some ''key'') (Body (Some [[Fin 1, Fin 0]])) Map.empty question_a =
     (Map.empty(embeddingCacheKey question_a \<mapsto> [Fin 1, Fin 0]), [Fin 1, Fin 0]) \<and>
   createEmbedding (Some ''key'') (Body (Some [[Fin 0, Fin 1]]))
       (Map.empty(embeddingCacheKey question_a \<mapsto> [Fin 1, Fin 0])) question_b =
     (Map.empty(embeddingCacheKey question_a \<mapsto> [Fin 1, Fin 0]), [Fin 1, Fin 0])"
proof -
  have key: "embeddingCacheKey question_a =
     ''embedding:V2hhdCBpcyB0aGUgbGF0ZXN0IG5ld3MgYWJvdXQgYXJ0aWZpY2''"
    by code_simp
  have t: "truthy_str (Some ''key'')"
    by simp
  have e: "(Map.empty :: embeddingCache) (embeddingCacheKey question_a) = None"
    by simp
  note th = embedding_cache_key_collides[of question_a question_b "Some ''key''" Map.empty
        "[Fin 1, Fin 0]" "[]" "Some ''key''" "Body (Some [[Fin 0, Fin 1]])"]
  from th question_prefix have k: "embeddingCacheKey question_a = embeddingCacheKey question_b"
    by blast
  from th question_prefix t e have
    c1: "createEmbedding (Some ''key'') (Body (Some [[Fin 1, Fin 0]])) Map.empty question_a =
     (Map.empty(embeddingCacheKey question_a \<mapsto> [Fin 1, Fin 0]), [Fin 1, Fin 0])" and
    c2: "createEmbedding (Some ''key'') (Body (Some [[Fin 0, Fin 1]]))
       (Map.empty(embeddingCacheKey question_a \<mapsto> [Fin 1, Fin 0])) question_b =
     (Map.empty(embeddingCacheKey question_a \<mapsto> [Fin 1, Fin 0]), [Fin 1, Fin 0])"
    by blast+
  show ?thesis
    by (intro conjI question_distinct question_prefix k key t c1 c2)
qed

section \<open>Malformed records\<close>

lemma list_range_all: "list_range xs 0 (- 1) = xs"
  by (cases xs) (auto simp: list_range_def Let_def)

lemma getSessionHistory_items:
  "getSessionHistory env net (m, with_history db sid items) sid =
     (case fst (getReadOnlyRedisClient env net m) of
        None \<Rightarrow> ([], log_line ''[news-bot] Redis not available, using in-memory fallback''
                       (snd (getReadOnlyRedisClient env net m)))
      | Some c \<Rightarrow>
          (case net LRANGE of
             Some err \<Rightarrow> ([], log_line ''[news-bot] Error getting session history:''
                               (snd (getReadOnlyRedisClient env net m)))
           | None \<Rightarrow>
               (filter truthy
                  (map (\<lambda>item. case JSON_parse (asString item) of None \<Rightarrow> JNull | Some v \<Rightarrow> v)
                     (map parseResponse items)),
                snd (getReadOnlyRedisClient env net m))))"
  by (simp add: getSessionHistory_def Let_def redis_lrange_def list_range_all with_history_def
      split: option.splits)

lemma unparsable_item_dropped:
  "JSON_parse bad = None \<Longrightarrow>
   (case JSON_parse (asString (parseResponse bad)) of None \<Rightarrow> JNull | Some v \<Rightarrow> v) = JNull"
  by (simp add: parseResponse_def)

text \<open>
  Claim C6. Reading a session skips an item that does not parse on its own: the result
  is what it would be were the item absent from the log. Loading the corpus does not
  skip: the file is parsed as one document, and when that fails, as it does when one
  record is malformed, the load returns the empty corpus.
\<close>

theorem malformed_records:
  "(JSON_parse bad = None \<longrightarrow>
      getSessionHistory env net (m, with_history db sid (xs @ bad # ys)) sid =
      getSessionHistory env net (m, with_history db sid (xs @ ys)) sid) \<and>
   (\<not> truthy (embeddedChunks vs) \<and> JSON_parse data = None \<longrightarrow>
      fst (loadEmbeddedChunks (Some data) vs) = JArray [])"
proof (intro conjI impI)
  assume "JSON_parse bad = None"
  then show "getSessionHistory env net (m, with_history db sid (xs @ bad # ys)) sid =
      getSessionHistory env net (m, with_history db sid (xs @ ys)) sid"
    unfolding getSessionHistory_items
    by (simp add: unparsable_item_dropped split: option.splits)
next
  assume "\<not> truthy (embeddedChunks vs) \<and> JSON_parse data = None"
  then show "fst (loadEmbeddedChunks (Some data) vs) = JArray []"
    by (simp add: loadEmbeddedChunks_def)
qed

lemma parse_bad_item: "JSON_parse bad_item = None"
  by code_simp

lemma parse_broken_corpus: "JSON_parse broken_corpus = None"
  by code_simp

theorem malformed_records_witness:
  "JSON_parse bad_item = None \<and>
   getSessionHistory env_ok net_ok
     (redis_module_init env_ok, with_history store_empty ''s1'' [''7'', bad_item, ''true''])
     ''s1'' =
   getSessionHistory env_ok net_ok
     (redis_module_init env_ok, with_history store_empty ''s1'' [''7'', ''true'']) ''s1'' \<and>
   \<not> truthy (embeddedChunks vector_store_init) \<and>
   JSON_parse broken_corpus = None \<and>
   fst (loadEmbeddedChunks (Some broken_corpus) vector_store_init) = JArray []"
proof -
  let ?m = "redis_module_init env_ok"
  note th = malformed_records[of bad_item env_ok net_ok ?m store_empty "''s1''" "[''7'']"
      "[''true'']" vector_store_init broken_corpus]
  have nl: "\<not> truthy (embeddedChunks vector_store_init)"
    by (simp add: vector_store_init_def)
  from th parse_bad_item have a:
    "getSessionHistory env_ok net_ok (?m, with_history store_empty ''s1'' ([''7''] @ bad_item # [''true''])) ''s1'' =
     getSessionHistory env_ok net_ok (?m, with_history store_empty ''s1'' ([''7''] @ [''true''])) ''s1''"
    by blast
  from th parse_broken_corpus nl have c:
    "fst (loadEmbeddedChunks (Some broken_corpus) vector_store_init) = JArray []"
    by blast
  have a': "getSessionHistory env_ok net_ok
     (redis_module_init env_ok, with_history store_empty ''s1'' [''7'', bad_item, ''true''])
     ''s1'' =
   getSessionHistory env_ok net_ok
     (redis_module_init env_ok, with_history store_empty ''s1'' [''7'', ''true'']) ''s1''"
    using a by simp
  show ?thesis
    by (intro conjI parse_bad_item a' nl parse_broken_corpus c)
qed

text \<open>
  A stored message is an object. The client hands it over parsed, the text that
  \<^verbatim>\<open>JSON.parse(item as string)\<close> reads is then \<^verbatim>\<open>[object Object]\<close>, and the message is
  dropped with the items that do not parse.
\<close>

lemma stored_message_dropped:
  "fst (getSessionHistory env_ok net_ok
     (redis_module_init env_ok, with_history store_empty ''s1'' [good_item]) ''s1'') = []"
proof -
  have p: "JSON_parse good_item =
      Some (JObject [(''role'', JString ''user''), (''content'', JString ''hi'')])"
    by code_simp
  have q: "JSON_parse ''[object Object]'' = None"
    by code_simp
  have c: "fst (getReadOnlyRedisClient env_ok net_ok (redis_module_init env_ok)) =
      Some \<lparr> client_url = ''https://kv'', client_token = ''secret'' \<rparr>"
    by (simp add: getReadOnlyRedisClient_def env_ok_def redis_module_init_def net_ok_def Let_def)
  have n: "net_ok LRANGE = None"
    by (simp add: net_ok_def)
  show ?thesis
    unfolding getSessionHistory_items
    by (simp add: c n parseResponse_def p q)
qed

text \<open>
  Claim C6 as it is worded fails: a corpus file with one good record and one record cut
  short loads as the empty corpus, although the good record alone loads.
\<close>

theorem corpus_load_counterexample:
  "JSON_parse broken_corpus = None \<and>
   fst (loadEmbeddedChunks (Some broken_corpus) vector_store_init) = JArray [] \<and>
   fst (loadEmbeddedChunks (Some intact_corpus) vector_store_init) =
     JArray [JObject [(''id'', JString ''c1'')]]"
proof -
  have p: "JSON_parse intact_corpus = Some (JArray [JObject [(''id'', JString ''c1'')]])"
    by code_simp
  have a: "fst (loadEmbeddedChunks (Some broken_corpus) vector_store_init) = JArray []"
    by (simp add: loadEmbeddedChunks_def vector_store_init_def parse_broken_corpus)
  have b: "fst (loadEmbeddedChunks (Some intact_corpus) vector_store_init) =
     JArray [JObject [(''id'', JString ''c1'')]]"
    by (simp add: loadEmbeddedChunks_def vector_store_init_def p)
  show ?thesis
    by (intro conjI parse_broken_corpus a b)
qed

section \<open>Missing configuration\<close>

lemma getRedisClient_missing:
  assumes "\<not> redisDisabled m" and "redisClient m = None"
    and "\<not> truthy_str (KV_REST_API_URL env) \<or> \<not> truthy_str (KV_REST_API_TOKEN env)"
  shows "getRedisClient env net (m, db) =
     (None, log_line missing_write_config (log_line ''[news-bot] Redis environment check:'' m), db)"
  using assms by (auto simp: getRedisClient_def Let_def)

lemma getRedisClient_fresh:
  assumes "\<not> redisDisabled m" and "redisClient m = None"
    and "truthy_str (KV_REST_API_URL env)" and "truthy_str (KV_REST_API_TOKEN env)"
    and "net NEW = None" and "net SET = None"
  shows "\<exists>c m'. getRedisClient env net (m, db) = (Some c, m', redis_set db ''healthcheck'' ''ok'') \<and>
           redisClient m' = Some c \<and> \<not> redisDisabled m'"
  using assms by (simp add: getRedisClient_def Let_def log_line_def)

text \<open>
  Claim C7. A call that finds the URL or the token missing gets no client: a write
  leaves the store as it is and writes the error line to the console, and a read that
  finds the URL or both tokens missing returns \<^verbatim>\<open>null\<close>. The layer is not disabled by
  this: \<open>redisDisabled\<close> stays false and no client is kept, so the next call reads the
  configuration again, and with URL and token present and the commands succeeding it
  builds the client and stores the value.
\<close>

theorem missing_config_is_rechecked:
  assumes "\<not> redisDisabled m" and "redisClient m = None"
    and "\<not> truthy_str (KV_REST_API_URL env) \<or> \<not> truthy_str (KV_REST_API_TOKEN env)"
  shows "snd (cacheSearchResults env net (m, db) q results ttl) = db \<and>
     \<not> redisDisabled (fst (cacheSearchResults env net (m, db) q results ttl)) \<and>
     redisClient (fst (cacheSearchResults env net (m, db) q results ttl)) = None \<and>
     console (fst (cacheSearchResults env net (m, db) q results ttl)) =
       console m @ [''[news-bot] Redis environment check:'', missing_write_config] \<and>
     (readOnlyRedisClient m = None \<and>
      (\<not> truthy_str (KV_REST_API_URL env) \<or>
       \<not> truthy_str (KV_REST_API_READ_ONLY_TOKEN env) \<and>
       \<not> truthy_str (KV_REST_API_TOKEN env)) \<longrightarrow>
        fst (getCachedSearchResults env net (m, db) q) = JNull \<and>
        \<not> redisDisabled (snd (getCachedSearchResults env net (m, db) q))) \<and>
     (truthy_str (KV_REST_API_URL env') \<and> truthy_str (KV_REST_API_TOKEN env') \<and>
      net' NEW = None \<and> net' SET = None \<and> net' SETEX = None \<and> ttl \<noteq> 0 \<longrightarrow>
        redisClient (fst (cacheSearchResults env' net'
           (cacheSearchResults env net (m, db) q results ttl) q results ttl)) \<noteq> None \<and>
        strings (snd (cacheSearchResults env' net'
           (cacheSearchResults env net (m, db) q results ttl) q results ttl)) (searchKey q)
          = Some results)"
proof -
  let ?m1 = "log_line missing_write_config (log_line ''[news-bot] Redis environment check:'' m)"
  have c1: "cacheSearchResults env net (m, db) q results ttl = (?m1, db)"
    by (simp add: cacheSearchResults_def getRedisClient_missing[OF assms] Let_def)
  have m1: "\<not> redisDisabled ?m1" "redisClient ?m1 = None"
    using assms(1,2) by (simp_all add: log_line_def)
  have lg: "console ?m1 =
      console m @ [''[news-bot] Redis environment check:'', missing_write_config]"
    by (simp add: log_line_def)
  have second: "redisClient (fst (cacheSearchResults env' net' (?m1, db) q results ttl)) \<noteq> None \<and>
        strings (snd (cacheSearchResults env' net' (?m1, db) q results ttl)) (searchKey q)
          = Some results"
    if h: "truthy_str (KV_REST_API_URL env')" "truthy_str (KV_REST_API_TOKEN env')"
      "net' NEW = None" "net' SET = None" "net' SETEX = None" "ttl \<noteq> 0"
  proof -
    from getRedisClient_fresh[OF m1 h(1,2,3,4), of db] obtain c m' where
      g: "getRedisClient env' net' (?m1, db) = (Some c, m', redis_set db ''healthcheck'' ''ok'')"
      and c: "redisClient m' = Some c" by blast
    show ?thesis
      using c h(5,6) by (simp add: cacheSearchResults_def g setJson_def redis_setex_def Let_def)
  qed
  have rd: "fst (getCachedSearchResults env net (m, db) q) = JNull \<and>
        \<not> redisDisabled (snd (getCachedSearchResults env net (m, db) q))"
    if r: "readOnlyRedisClient m = None"
      "\<not> truthy_str (KV_REST_API_URL env) \<or>
       \<not> truthy_str (KV_REST_API_READ_ONLY_TOKEN env) \<and>
       \<not> truthy_str (KV_REST_API_TOKEN env)"
    using r assms(1)
    by (auto simp: getCachedSearchResults_def getReadOnlyRedisClient_def log_line_def Let_def)
  show ?thesis
    unfolding c1 using m1 lg second rd by simp
qed

theorem missing_config_is_rechecked_witness:
  "\<not> redisDisabled (fst fresh_process) \<and> redisClient (fst fresh_process) = None \<and>
   \<not> truthy_str (KV_REST_API_URL env_missing) \<and>
   snd (cacheSearchResults env_missing net_ok fresh_process ''q'' ''[]'' 300) = store_empty \<and>
   \<not> redisDisabled (fst (cacheSearchResults env_missing net_ok fresh_process ''q'' ''[]'' 300)) \<and>
   readOnlyRedisClient (fst fresh_process) = None \<and>
   fst (getCachedSearchResults env_missing net_ok fresh_process ''q'') = JNull \<and>
   truthy_str (KV_REST_API_URL env_ok) \<and> truthy_str (KV_REST_API_TOKEN env_ok) \<and>
   strings (snd (cacheSearchResults env_ok net_ok
      (cacheSearchResults env_missing net_ok fresh_process ''q'' ''[]'' 300) ''q'' ''[]'' 300))
     (searchKey ''q'') = Some ''[]''"
proof -
  have 1: "\<not> redisDisabled (fst fresh_process)"
    by (simp add: fresh_process_def redis_module_init_def env_missing_def)
  have 2: "redisClient (fst fresh_process) = None"
    by (simp add: fresh_process_def redis_module_init_def)
  have 3: "\<not> truthy_str (KV_REST_API_URL env_missing)"
    by (simp add: env_missing_def)
  then have mis: "\<not> truthy_str (KV_REST_API_URL env_missing) \<or>
                 \<not> truthy_str (KV_REST_API_TOKEN env_missing)"
    by simp
  have 4: "truthy_str (KV_REST_API_URL env_ok)" "truthy_str (KV_REST_API_TOKEN env_ok)"
    by (simp_all add: env_ok_def)
  have 5: "net_ok NEW = None" "net_ok SET = None" "net_ok SETEX = None" "(300::nat) \<noteq> 0"
    by (simp_all add: net_ok_def)
  have fp: "fresh_process = (fst fresh_process, store_empty)"
    by (simp add: fresh_process_def)
  note th = missing_config_is_rechecked[OF 1 2 mis, of net_ok store_empty "''q''" "''[]''" 300
      env_ok net_ok, folded fp]
  have 6: "readOnlyRedisClient (fst fresh_process) = None"
    by (simp add: fresh_process_def redis_module_init_def)
  from th 3 6 have g: "fst (getCachedSearchResults env_missing net_ok fresh_process ''q'') = JNull"
    by blast
  from th 4 5 have
    a: "snd (cacheSearchResults env_missing net_ok fresh_process ''q'' ''[]'' 300) = store_empty"
    and b: "\<not> redisDisabled (fst (cacheSearchResults env_missing net_ok fresh_process ''q'' ''[]'' 300))"
    and c: "strings (snd (cacheSearchResults env_ok net_ok
      (cacheSearchResults env_missing net_ok fresh_process ''q'' ''[]'' 300) ''q'' ''[]'' 300))
     (searchKey ''q'') = Some ''[]''"
    by blast+
  show ?thesis
    by (intro conjI 1 2 3 4 6 g a b c)
qed

text \<open>
  Claim C7 as it is worded fails: after a first call without configuration the layer is
  not disabled, a second such call writes the error line a second time, and a call made
  once the configuration is present builds the client.
\<close>

theorem missing_config_counterexample:
  "\<not> redisDisabled
      (fst (cacheSearchResults env_missing net_ok fresh_process ''q'' ''[]'' 300)) \<and>
   count_list
     (console (fst (cacheSearchResults env_missing net_ok
        (cacheSearchResults env_missing net_ok fresh_process ''q'' ''[]'' 300) ''q'' ''[]'' 300)))
     missing_write_config = 2 \<and>
   redisClient (fst (cacheSearchResults env_ok net_ok
      (cacheSearchResults env_missing net_ok fresh_process ''q'' ''[]'' 300) ''q'' ''[]'' 300))
     = Some \<lparr> client_url = ''https://kv'', client_token = ''secret'' \<rparr>"
proof -
  let ?m0 = "redis_module_init env_missing"
  let ?m1 = "log_line missing_write_config (log_line ''[news-bot] Redis environment check:'' ?m0)"
  let ?m2 = "log_line missing_write_config (log_line ''[news-bot] Redis environment check:'' ?m1)"
  have mis: "\<not> truthy_str (KV_REST_API_URL env_missing) \<or>
             \<not> truthy_str (KV_REST_API_TOKEN env_missing)"
    by (simp add: env_missing_def)
  have m0: "\<not> redisDisabled ?m0" "redisClient ?m0 = None"
    by (simp_all add: redis_module_init_def env_missing_def)
  have m1: "\<not> redisDisabled ?m1" "redisClient ?m1 = None"
    using m0 by (simp_all add: log_line_def)
  have c1: "cacheSearchResults env_missing net_ok fresh_process ''q'' ''[]'' 300 = (?m1, store_empty)"
    by (simp add: cacheSearchResults_def fresh_process_def getRedisClient_missing[OF m0 mis] Let_def)
  have c2: "cacheSearchResults env_missing net_ok (?m1, store_empty) ''q'' ''[]'' 300 = (?m2, store_empty)"
    by (simp add: cacheSearchResults_def getRedisClient_missing[OF m1 mis] Let_def)
  have cnt: "count_list (console ?m2) missing_write_config = 2"
    by (simp add: log_line_def redis_module_init_def missing_write_config_def)
  have c3: "redisClient (fst (cacheSearchResults env_ok net_ok (?m1, store_empty) ''q'' ''[]'' 300))
     = Some \<lparr> client_url = ''https://kv'', client_token = ''secret'' \<rparr>"
    using m1
    by (simp add: cacheSearchResults_def getRedisClient_def env_ok_def net_ok_def setJson_def
        log_line_def Let_def)
  show ?thesis
    unfolding c1 c2 using m1(1) cnt c3 by simp
qed

end
